theory Spec2Isabelle
  imports Main "HOL-Library.Sublist"
begin

section \<open>The bus client of \<open>lightbus/client/bus_client.py\<close>\<close>

text \<open>
  The class \<open>BusClient\<close> is embedded as a record of its attributes; every method is a
  function from the client to an outcome (an exception or a return value), the
  updated client and the list of calls it made to its collaborators (transports,
  schema, plugin registry, event loop), in the order they were made. The
  collaborators are not part of the client module: what each of their calls does
  (return normally or raise) is a field of the record \<open>env\<close>.

  A leading underscore of a Python name is dropped (\<open>_execute_hook\<close> is
  \<open>execute_hook\<close>). Calls to the logger are left out, except \<open>logger.exception\<close>
  in \<open>close_async\<close>, which is how that method absorbs an exception.
\<close>

subsection \<open>Exceptions\<close>

text \<open>
  The exceptions the client raises or catches by name. \<open>OtherException\<close> stands for
  any other subclass of Python's \<open>Exception\<close>, with its \<open>str()\<close>. \<open>CancelledError\<close> is
  \<open>asyncio.CancelledError\<close>.
\<close>

datatype exn =
    BusAlreadyClosed
  | NoApisToListenOn
  | LightbusTimeout string
  | LightbusServerError string
  | TransportIsClosed
  | SuddenDeathException
  | CancelledError
  | UnknownApi string
  | AttributeError string
  | AssertionError string
  | OtherException string

text \<open>\<open>str(e)\<close>, the description of an exception.\<close>

fun exn_str :: "exn \<Rightarrow> string" where
  "exn_str BusAlreadyClosed = ''''"
| "exn_str NoApisToListenOn =
     ''No APIs to consume on in consume_rpcs(). Either this method was called with apis=[], or the API registry is empty.''"
| "exn_str (LightbusTimeout msg) = msg"
| "exn_str (LightbusServerError msg) = msg"
| "exn_str TransportIsClosed = ''''"
| "exn_str SuddenDeathException = ''''"
| "exn_str CancelledError = ''''"
| "exn_str (UnknownApi msg) = msg"
| "exn_str (AttributeError msg) = msg"
| "exn_str (AssertionError msg) = msg"
| "exn_str (OtherException msg) = msg"

subsection \<open>Messages, APIs, tasks\<close>

text \<open>
  Values that travel on the bus are modelled by their text (\<open>str(x)\<close>); a dictionary
  of keyword arguments is an association list.
\<close>

type_synonym payload = string
type_synonym kwargs = "(string \<times> payload) list"
type_synonym transport = string

record rpc_message =
  rpc_id :: string
  api_name :: string
  procedure_name :: string
  kwargs :: kwargs
  return_path :: "string option"

text \<open>
  Modelled from the spec: the property \<open>canonical_name\<close> of the class \<open>RpcMessage\<close>
  (module \<open>lightbus.message\<close>), \<open>api_name + "." + procedure_name\<close>.
\<close>

definition canonical_name :: "rpc_message \<Rightarrow> string" where
  "canonical_name m = api_name m @ ''.'' @ procedure_name m"

record result_message =
  rpc_message_id :: string
  result :: payload
  error :: bool
  trace :: "string option"

datatype message = MRpc rpc_message | MResult result_message

record api =
  meta_name :: string
  operations :: "string list"

datatype Feature = RPCS | EVENTS | TASKS

text \<open>
  What a task of the event loop runs. A listener task carries the attribute
  \<open>is_listener\<close> that \<open>close_async\<close> looks for.
\<close>

datatype coroutine =
    ServerShutdownMonitor
  | SchemaMonitor
  | ConsumeRpcs
  | GatherConsumers "(transport \<times> api list) list"
  | Listener string
  | Background string

record task =
  task_body :: coroutine
  is_listener :: bool

text \<open>
  An argument passed as a hook callback: a function, or some other object with its
  truth value.
\<close>

datatype callback = Fn string | Obj string bool

fun callable :: "callback \<Rightarrow> bool" where
  "callable (Fn f) = True"
| "callable (Obj x b) = False"

fun truthy :: "callback \<Rightarrow> bool" where
  "truthy (Fn f) = True"
| "truthy (Obj x b) = b"

record hook_kwargs =
  kw_rpc_message :: "rpc_message option"
  kw_result_message :: "result_message option"


subsection \<open>The client\<close>

text \<open>
  The attributes set by \<open>BusClient.__init__\<close>. \<open>hook_callbacks\<close> is a
  \<open>defaultdict(list)\<close>: a key never written holds the empty list. \<open>api_registry\<close>
  lists the registered APIs in the order of registration. \<open>loop_tasks\<close> is not an
  attribute: it is what \<open>asyncio.all_tasks()\<close> returns.
\<close>

record client =
  event_listeners :: "string list"
  consumers :: "task list"
  background_coroutines :: "string list"
  background_tasks :: "task list"
  hook_callbacks :: "string \<times> bool \<Rightarrow> callback list"
  features :: "Feature list"
  api_registry :: "api list"
  server_shutdown_queue :: bool
  shutdown_monitor_task :: "task option"
  exit_code :: int
  closed :: bool
  server_tasks :: "task option list"
  lazy_load_complete :: bool
  loop_tasks :: "task list"

subsection \<open>Calls to collaborators\<close>

datatype effect =
    ESchemaEnsureLoaded
  | ESchemaAddApi string
  | ETransportOpen transport
  | ETransportClose transport
  | ESchemaTransportClose
  | EInvokerStop
  | ECancel "task option list"
  | ELogException exn
  | EValidate message string "string option" "string option"
  | EValidateName string string string
  | ERunCallback callback string hook_kwargs
  | EPluginHook string hook_kwargs
  | EEventClientListen string string "kwargs option" "kwargs option"
  | EConsumeRpcs transport "api list"
  | ECastToSignature string string kwargs
  | ERunMethod string string kwargs
  | ESendResult transport rpc_message result_message "string option"
  | EGetReturnPath transport rpc_message
  | EGather rpc_message transport
  | EWaitFor nat
  | EAwaitFuture
  | EEnsureFuture task
  | EStartListenerTask string
  | EWelcomeMessage
  | ERunLoopForever

text \<open>
  How \<open>asyncio.wait_for(future, timeout)\<close> ends in \<open>call_rpc_remote\<close>: the gathered
  operations are both done and the first gave a result message, or one of them raised,
  or the deadline passed. After the deadline the future is awaited once more: it
  finished all the same, or it raised (\<open>CancelledError\<close> when it was cancelled).
\<close>

datatype drained = DrainFinished | DrainRaised exn

datatype waited = WaitResult result_message | WaitRaised exn | WaitTimeout drained

text \<open>
  What one call of \<open>rpc_transport.consume_rpcs\<close> gives: a batch of messages, or an
  exception.
\<close>

datatype consumed = Messages "rpc_message list" | ConsumeRaises exn

text \<open>
  The collaborators and the interpreter. \<open>cancelled_error_is_exception\<close> tells the
  Python version: \<open>asyncio.CancelledError\<close> is a subclass of \<open>Exception\<close> on Python 3.7
  and of \<open>BaseException\<close> only from Python 3.8 on (the package supports both), so that
  \<open>except Exception\<close> catches it on 3.7 and lets it through later.
\<close>

record env =
  ensure_loaded_raises :: "exn option"
  add_api_raises :: "string \<Rightarrow> exn option"
  open_raises :: "transport \<Rightarrow> exn option"
  close_raises :: "transport \<Rightarrow> exn option"
  schema_transport_close_raises :: "exn option"
  invoker_stop_raises :: "exn option"
  cancel_raises :: "task option list \<Rightarrow> exn option"
  cancelled_error_is_exception :: bool
  get_all_transports :: "transport list"
  get_rpc_transports :: "string list \<Rightarrow> (transport \<times> string list) list"
  get_rpc_transport :: "string \<Rightarrow> transport"
  get_result_transport :: "string \<Rightarrow> transport"
  get_return_path :: "transport \<Rightarrow> rpc_message \<Rightarrow> string"
  validate_raises :: "message \<Rightarrow> string \<Rightarrow> string option \<Rightarrow> string option \<Rightarrow> exn option"
  validate_name_raises :: "string \<Rightarrow> string \<Rightarrow> string \<Rightarrow> exn option"
  callback_raises :: "callback \<Rightarrow> string \<Rightarrow> hook_kwargs \<Rightarrow> exn option"
  plugin_hook_raises :: "string \<Rightarrow> hook_kwargs \<Rightarrow> exn option"
  event_client_listen :: "string \<Rightarrow> string \<Rightarrow> kwargs option \<Rightarrow> kwargs option \<Rightarrow> exn + payload"
  cast_values :: "string \<Rightarrow> bool"
  cast_to_signature :: "kwargs \<Rightarrow> string \<Rightarrow> string \<Rightarrow> exn + kwargs"
  run_method :: "string \<Rightarrow> string \<Rightarrow> kwargs \<Rightarrow> exn + payload"
  deform_to_bus :: "payload \<Rightarrow> payload"
  deform_kwargs :: "kwargs \<Rightarrow> kwargs"
  format_traceback :: "exn \<Rightarrow> string"
  send_result_raises :: "rpc_message \<Rightarrow> result_message \<Rightarrow> exn option"
  new_message_id :: string
  rpc_timeout :: "string \<Rightarrow> nat"
  wait_for :: "rpc_message \<Rightarrow> nat \<Rightarrow> waited"

subsection \<open>Sequencing\<close>

type_synonym 'a action = "client \<Rightarrow> (exn + 'a) \<times> client \<times> effect list"

definition ret :: "'a \<Rightarrow> 'a action" where
  "ret x c = (Inr x, c, [])"

definition raise :: "exn \<Rightarrow> 'a action" where
  "raise e c = (Inl e, c, [])"

text \<open>\<open>bnd m f\<close>: run \<open>m\<close>; an exception of \<open>m\<close> ends the whole, a value goes on into \<open>f\<close>.\<close>

definition bnd :: "'a action \<Rightarrow> ('a \<Rightarrow> 'b action) \<Rightarrow> 'b action" where
  "bnd m f c =
     (case m c of
        (Inl e, c1, ev1) \<Rightarrow> (Inl e, c1, ev1)
      | (Inr x, c1, ev1) \<Rightarrow> (case f x c1 of (r, c2, ev2) \<Rightarrow> (r, c2, ev1 @ ev2)))"

text \<open>A call to a collaborator: the call is made, then it returns or raises.\<close>

definition call :: "effect \<Rightarrow> exn option \<Rightarrow> unit action" where
  "call ev out c = ((case out of None \<Rightarrow> Inr () | Some e \<Rightarrow> Inl e), c, [ev])"

definition call_value :: "effect \<Rightarrow> exn + 'a \<Rightarrow> 'a action" where
  "call_value ev out c = (out, c, [ev])"

definition modify :: "(client \<Rightarrow> client) \<Rightarrow> unit action" where
  "modify f c = (Inr (), f c, [])"

text \<open>A \<open>for\<close> loop whose body may raise.\<close>

fun for_each :: "('a \<Rightarrow> unit action) \<Rightarrow> 'a list \<Rightarrow> unit action" where
  "for_each f [] = ret ()"
| "for_each f (x # xs) = bnd (f x) (\<lambda>_. for_each f xs)"


definition outcome :: "(exn + 'a) \<times> client \<times> effect list \<Rightarrow> exn + 'a" where
  "outcome r = fst r"


definition effects :: "(exn + 'a) \<times> client \<times> effect list \<Rightarrow> effect list" where
  "effects r = snd (snd r)"

subsection \<open>Hooks\<close>

text \<open>
  \<open>_execute_hook\<close>: the callbacks registered to run before the plugins, then the
  plugin registry, then the callbacks registered to run after the plugins. Each
  callback runs through \<open>run_user_provided_callable\<close>.
\<close>

definition run_callbacks :: "env \<Rightarrow> string \<Rightarrow> hook_kwargs \<Rightarrow> callback list \<Rightarrow> unit action" where
  "run_callbacks E name kw cbs =
     for_each (\<lambda>cb. call (ERunCallback cb name kw) (callback_raises E cb name kw)) cbs"

definition execute_hook :: "env \<Rightarrow> string \<Rightarrow> hook_kwargs \<Rightarrow> unit action" where
  "execute_hook E name kw c =
     bnd (run_callbacks E name kw (hook_callbacks c (name, True))) (\<lambda>_.
     bnd (call (EPluginHook name kw) (plugin_hook_raises E name kw)) (\<lambda>_. (\<lambda>c1.
     run_callbacks E name kw (hook_callbacks c1 (name, False)) c1))) c"

definition register_hook_callback :: "string \<Rightarrow> callback \<Rightarrow> bool \<Rightarrow> client \<Rightarrow> client" where
  "register_hook_callback name fn before_plugins c =
     c\<lparr>hook_callbacks := (hook_callbacks c)
          ((name, before_plugins) := hook_callbacks c (name, before_plugins) @ [fn])\<rparr>"

text \<open>
  \<open>_make_hook_decorator\<close> returns \<open>None\<close> after registering the callback it was given,
  or a decorator that registers the function it is applied to.
\<close>

datatype hook_return = ReturnsNone | ReturnsDecorator string bool

definition make_hook_decorator ::
  "string \<Rightarrow> bool \<Rightarrow> callback option \<Rightarrow> client \<Rightarrow> (exn + hook_return) \<times> client" where
  "make_hook_decorator name before_plugins cb c =
     (case cb of
        None \<Rightarrow> (Inr (ReturnsDecorator name before_plugins), c)
      | Some f \<Rightarrow>
          if truthy f \<and> \<not> callable f
          then (Inl (AssertionError ''The provided callback is not callable''), c)
          else if truthy f
          then (Inr ReturnsNone, register_hook_callback name f before_plugins c)
          else (Inr (ReturnsDecorator name before_plugins), c))"


definition before_worker_start :: "callback option \<Rightarrow> bool \<Rightarrow> client \<Rightarrow> (exn + hook_return) \<times> client" where
  "before_worker_start cb before_plugins = make_hook_decorator ''before_worker_start'' before_plugins cb"


definition on_start :: "callback option \<Rightarrow> bool \<Rightarrow> client \<Rightarrow> (exn + hook_return) \<times> client" where
  "on_start cb before_plugins = before_worker_start cb before_plugins"


subsection \<open>Lazy loading\<close>

text \<open>
  \<open>lazy_load_now\<close>, run from its first line to its last with nothing else running in
  between.
\<close>

definition lazy_load_now :: "env \<Rightarrow> unit action" where
  "lazy_load_now E c =
     (if lazy_load_complete c then ret () c
      else
        bnd (call ESchemaEnsureLoaded (ensure_loaded_raises E)) (\<lambda>_.
        bnd (\<lambda>c1. for_each (\<lambda>a. call (ESchemaAddApi (meta_name a)) (add_api_raises E (meta_name a)))
                     (api_registry c1) c1) (\<lambda>_.
        bnd (for_each (\<lambda>t. call (ETransportOpen t) (open_raises E t)) (get_all_transports E)) (\<lambda>_.
        modify (\<lambda>c2. c2\<lparr>lazy_load_complete := True\<rparr>)))) c)"

text \<open>\<open>n\<close> calls of \<open>lazy_load_now\<close>, each awaited before the next is made.\<close>

fun lazy_load_now_times :: "env \<Rightarrow> nat \<Rightarrow> unit action" where
  "lazy_load_now_times E 0 = ret ()"
| "lazy_load_now_times E (Suc n) = bnd (lazy_load_now E) (\<lambda>_. lazy_load_now_times E n)"

text \<open>
  The same coroutine, cut at its \<open>await\<close>s, where the event loop may run another task.
  A \<open>lazy_pc\<close> is where a call of \<open>lazy_load_now\<close> stands: not yet started; suspended in
  \<open>schema.ensure_loaded_from_bus()\<close>; suspended in \<open>schema.add_api\<close> with the APIs still
  to add; suspended in \<open>transport.open\<close> with the transports still to open; returned;
  ended by an exception. \<open>lazy_resume\<close> runs the call from there up to its next \<open>await\<close>.
\<close>

datatype lazy_pc =
    LazyEntry
  | LazyLoading
  | LazyAdding "api list"
  | LazyOpening "transport list"
  | LazyReturned
  | LazyRaised exn

definition resume_opening :: "env \<Rightarrow> transport list \<Rightarrow> client \<Rightarrow> lazy_pc \<times> client \<times> effect list" where
  "resume_opening E ts c =
     (case ts of
        [] \<Rightarrow> (LazyReturned, c\<lparr>lazy_load_complete := True\<rparr>, [])
      | t # ts' \<Rightarrow>
          (case open_raises E t of
             Some e \<Rightarrow> (LazyRaised e, c, [ETransportOpen t])
           | None \<Rightarrow> (LazyOpening ts', c, [ETransportOpen t])))"

definition resume_adding :: "env \<Rightarrow> api list \<Rightarrow> client \<Rightarrow> lazy_pc \<times> client \<times> effect list" where
  "resume_adding E as c =
     (case as of
        [] \<Rightarrow> resume_opening E (get_all_transports E) c
      | a # as' \<Rightarrow>
          (case add_api_raises E (meta_name a) of
             Some e \<Rightarrow> (LazyRaised e, c, [ESchemaAddApi (meta_name a)])
           | None \<Rightarrow> (LazyAdding as', c, [ESchemaAddApi (meta_name a)])))"

definition lazy_resume :: "env \<Rightarrow> lazy_pc \<Rightarrow> client \<Rightarrow> lazy_pc \<times> client \<times> effect list" where
  "lazy_resume E pc c =
     (case pc of
        LazyEntry \<Rightarrow>
          if lazy_load_complete c then (LazyReturned, c, [])
          else (case ensure_loaded_raises E of
                  Some e \<Rightarrow> (LazyRaised e, c, [ESchemaEnsureLoaded])
                | None \<Rightarrow> (LazyLoading, c, [ESchemaEnsureLoaded]))
      | LazyLoading \<Rightarrow> resume_adding E (api_registry c) c
      | LazyAdding as \<Rightarrow> resume_adding E as c
      | LazyOpening ts \<Rightarrow> resume_opening E ts c
      | LazyReturned \<Rightarrow> (LazyReturned, c, [])
      | LazyRaised e \<Rightarrow> (LazyRaised e, c, []))"

text \<open>
  Several calls of \<open>lazy_load_now\<close> on one client, as tasks of one event loop. The
  schedule names, step by step, the task that the loop resumes.
\<close>

fun run_schedule ::
  "env \<Rightarrow> nat list \<Rightarrow> lazy_pc list \<Rightarrow> client \<Rightarrow> lazy_pc list \<times> client \<times> effect list" where
  "run_schedule E [] pcs c = (pcs, c, [])"
| "run_schedule E (i # sched) pcs c =
     (if i < length pcs
      then (case lazy_resume E (pcs ! i) c of (pc1, c1, ev1) \<Rightarrow>
              (case run_schedule E sched (pcs[i := pc1]) c1 of (pcs2, c2, ev2) \<Rightarrow>
                 (pcs2, c2, ev1 @ ev2)))
      else run_schedule E sched pcs c)"

text \<open>Where a call of \<open>lazy_load_now\<close> stands when it has ended with the outcome \<open>r\<close>.\<close>

definition ended :: "exn + unit \<Rightarrow> lazy_pc" where
  "ended r = (case r of Inl e \<Rightarrow> LazyRaised e | Inr _ \<Rightarrow> LazyReturned)"

subsection \<open>Closing\<close>





subsection \<open>Events\<close>

definition fire_event ::
  "env \<Rightarrow> string \<Rightarrow> string \<Rightarrow> kwargs option \<Rightarrow> kwargs option \<Rightarrow> payload action" where
  "fire_event E api_nm name kw options =
     call_value (EEventClientListen api_nm name kw options)
       (event_client_listen E api_nm name kw options)"

subsection \<open>Serving RPCs\<close>

text \<open>
  Modelled from the spec: \<open>ApiRegistry\<close> (module \<open>lightbus.api\<close>), a mapping from the
  name of an API to the API, unique by name, whose \<open>get\<close> raises \<open>UnknownApi\<close> for a
  name that is not registered.
\<close>

definition registry_add :: "api \<Rightarrow> api list \<Rightarrow> api list" where
  "registry_add a reg =
     (if meta_name a \<in> set (map meta_name reg)
      then map (\<lambda>b. if meta_name b = meta_name a then a else b) reg
      else reg @ [a])"

definition registry_get :: "string \<Rightarrow> api action" where
  "registry_get name c =
     (case find (\<lambda>a. meta_name a = name) (api_registry c) of
        None \<Rightarrow> raise (UnknownApi name) c
      | Some a \<Rightarrow> ret a c)"

definition register_api :: "api \<Rightarrow> client \<Rightarrow> client" where
  "register_api a c = c\<lparr>api_registry := registry_add a (api_registry c)\<rparr>"

text \<open>A list comprehension whose element may raise.\<close>

fun map_action :: "('a \<Rightarrow> 'b action) \<Rightarrow> 'a list \<Rightarrow> 'b list action" where
  "map_action f [] = ret []"
| "map_action f (x # xs) = bnd (f x) (\<lambda>y. bnd (map_action f xs) (\<lambda>ys. ret (y # ys)))"

definition validate :: "env \<Rightarrow> message \<Rightarrow> string \<Rightarrow> string option \<Rightarrow> string option \<Rightarrow> unit action" where
  "validate E m direction api_nm proc_nm =
     call (EValidate m direction api_nm proc_nm) (validate_raises E m direction api_nm proc_nm)"

definition validate_name :: "env \<Rightarrow> string \<Rightarrow> string \<Rightarrow> string \<Rightarrow> unit action" where
  "validate_name E api_nm type name =
     call (EValidateName api_nm type name) (validate_name_raises E api_nm type name)"

text \<open>
  \<open>consume_rpcs\<close>. The task it creates gathers one \<open>_consume_rpcs_with_transport\<close> for
  each RPC transport; the task is handed to the event loop and not run here.
\<close>

definition consume_rpcs :: "env \<Rightarrow> api list option \<Rightarrow> unit action" where
  "consume_rpcs E apis =
     bnd (lazy_load_now E) (\<lambda>_ c.
       (let apis1 = (case apis of None \<Rightarrow> api_registry c | Some as \<Rightarrow> as) in
        if apis1 = [] then raise NoApisToListenOn c
        else
          bnd (map_action
                 (\<lambda>(rpc_transport, transport_api_names).
                    bnd (map_action registry_get transport_api_names) (\<lambda>transport_apis.
                    ret (rpc_transport, transport_apis)))
                 (get_rpc_transports E (map meta_name apis1))) (\<lambda>coroutines.
          (let t = \<lparr>task_body = GatherConsumers coroutines, is_listener = False\<rparr> in
           bnd (call (EEnsureFuture t) None) (\<lambda>_.
           modify (\<lambda>c1. c1\<lparr>consumers := consumers c1 @ [t],
                            loop_tasks := loop_tasks c1 @ [t]\<rparr>)))) c))"

text \<open>
  \<open>_call_rpc_local\<close>. All three \<open>except\<close> clauses raise the exception again; the
  second one logs it first.
\<close>

definition call_rpc_local :: "env \<Rightarrow> string \<Rightarrow> string \<Rightarrow> kwargs \<Rightarrow> payload action" where
  "call_rpc_local E api_nm name kw =
     bnd (lazy_load_now E) (\<lambda>_.
     bnd (registry_get api_nm) (\<lambda>a.
     bnd (validate_name E api_nm ''rpc'' name) (\<lambda>_.
     if name \<notin> set (operations a) then raise (AttributeError name)
     else
       bnd (if cast_values E api_nm
            then call_value (ECastToSignature api_nm name kw) (cast_to_signature E kw api_nm name)
            else ret kw) (\<lambda>kw1.
       call_value (ERunMethod api_nm name kw1) (run_method E api_nm name kw1)))))"

definition send_result :: "env \<Rightarrow> rpc_message \<Rightarrow> result_message \<Rightarrow> unit action" where
  "send_result E rpc_msg result_msg =
     bnd (lazy_load_now E) (\<lambda>_.
     call (ESendResult (get_result_transport E (api_name rpc_msg)) rpc_msg result_msg
             (return_path rpc_msg))
          (send_result_raises E rpc_msg result_msg))"

text \<open>
  Modelled from the spec: the constructor of \<open>ResultMessage\<close> (module
  \<open>lightbus.message\<close>). Given an exception as the result, the message is an error,
  its result is the description of the exception and it carries a trace; given a
  value, it is no error and has no trace.
\<close>

definition new_result_message :: "env \<Rightarrow> exn + payload \<Rightarrow> string \<Rightarrow> result_message" where
  "new_result_message E r msg_id =
     (case r of
        Inl e \<Rightarrow> \<lparr>rpc_message_id = msg_id, result = exn_str e, error = True,
                   trace = Some (format_traceback E e)\<rparr>
      | Inr v \<Rightarrow> \<lparr>rpc_message_id = msg_id, result = v, error = False, trace = None\<rparr>)"

text \<open>
  The body of the \<open>for rpc_message in rpc_messages\<close> loop of
  \<open>_consume_rpcs_with_transport\<close>. It returns \<open>False\<close> where the source returns from
  the whole method, \<open>True\<close> where the loop goes on.
\<close>

definition handle_rpc_message :: "env \<Rightarrow> rpc_message \<Rightarrow> bool action" where
  "handle_rpc_message E rpc_msg =
     bnd (validate E (MRpc rpc_msg) ''incoming'' None None) (\<lambda>_.
     bnd (execute_hook E ''before_rpc_execution''
            \<lparr>kw_rpc_message = Some rpc_msg, kw_result_message = None\<rparr>) (\<lambda>_ c.
     (case call_rpc_local E (api_name rpc_msg) (procedure_name rpc_msg) (kwargs rpc_msg) c of
        (Inl SuddenDeathException, c1, ev1) \<Rightarrow> (Inr False, c1, ev1)
      | (Inl CancelledError, c1, ev1) \<Rightarrow> (Inl CancelledError, c1, ev1)
      | (r, c1, ev1) \<Rightarrow>
          (let result_msg =
                 new_result_message E (map_sum id (deform_to_bus E) r) (rpc_id rpc_msg) in
           case
             bnd (execute_hook E ''after_rpc_execution''
                    \<lparr>kw_rpc_message = Some rpc_msg, kw_result_message = Some result_msg\<rparr>) (\<lambda>_.
             bnd (if \<not> error result_msg
                  then validate E (MResult result_msg) ''outgoing''
                         (Some (api_name rpc_msg)) (Some (procedure_name rpc_msg))
                  else ret ()) (\<lambda>_.
             bnd (send_result E rpc_msg result_msg) (\<lambda>_.
             ret True))) c1
           of (r2, c2, ev2) \<Rightarrow> (r2, c2, ev1 @ ev2)))))"

fun handle_rpc_messages :: "env \<Rightarrow> rpc_message list \<Rightarrow> bool action" where
  "handle_rpc_messages E [] = ret True"
| "handle_rpc_messages E (m # ms) =
     bnd (handle_rpc_message E m) (\<lambda>go_on.
     if go_on then handle_rpc_messages E ms else ret False)"

text \<open>
  The \<open>while True\<close> loop of \<open>_consume_rpcs_with_transport\<close>. What the transport gives at
  each call of \<open>consume_rpcs\<close> is the list \<open>feed\<close>. When the list is used up the
  coroutine has not returned: it waits in \<open>rpc_transport.consume_rpcs\<close>.
\<close>

datatype consumer_end = ConsumerReturned | ConsumerWaiting

fun consume_loop :: "env \<Rightarrow> transport \<Rightarrow> api list \<Rightarrow> consumed list \<Rightarrow> consumer_end action" where
  "consume_loop E rpc_transport apis [] = ret ConsumerWaiting"
| "consume_loop E rpc_transport apis (x # feed) =
     bnd (call (EConsumeRpcs rpc_transport apis) None) (\<lambda>_.
     case x of
       ConsumeRaises e \<Rightarrow> if e = TransportIsClosed then ret ConsumerReturned else raise e
     | Messages rpc_messages \<Rightarrow>
         bnd (handle_rpc_messages E rpc_messages) (\<lambda>go_on.
         if go_on then consume_loop E rpc_transport apis feed else ret ConsumerReturned))"

definition consume_rpcs_with_transport ::
  "env \<Rightarrow> transport \<Rightarrow> api list \<Rightarrow> consumed list \<Rightarrow> consumer_end action" where
  "consume_rpcs_with_transport E rpc_transport apis feed =
     bnd (lazy_load_now E) (\<lambda>_. consume_loop E rpc_transport apis feed)"

subsection \<open>Calling RPCs\<close>

text \<open>The decimal digits of a number, as \<open>str()\<close> gives them.\<close>

fun show_nat :: "nat \<Rightarrow> string" where
  "show_nat n =
     (if n < 10 then [''0123456789'' ! n]
      else show_nat (n div 10) @ [''0123456789'' ! (n mod 10)])"

declare show_nat.simps [simp del]

definition timeout_message :: "rpc_message \<Rightarrow> nat \<Rightarrow> string" where
  "timeout_message rpc_msg timeout =
     ''Timeout when calling RPC '' @ canonical_name rpc_msg @ '' after '' @ show_nat timeout
     @ '' seconds. It is possible no Lightbus process is serving this API, or perhaps it is taking too long to process the request. In which case consider raising the 'rpc_timeout' config option.''"

definition server_error_message :: "rpc_message \<Rightarrow> result_message \<Rightarrow> string" where
  "server_error_message rpc_msg result_msg =
     ''Error while calling '' @ canonical_name rpc_msg @ '': '' @ result result_msg
     @ [CHR 0x0A] @ ''Remote stack trace:'' @ [CHR 0x0A]
     @ (case trace result_msg of None \<Rightarrow> ''None'' | Some t \<Rightarrow> t)"

text \<open>
  \<open>call_rpc_remote\<close>. \<open>options\<close> is \<open>None\<close> or a dictionary; the only key the client
  reads is \<open>timeout\<close>, a number of seconds, here a natural number. The two gathered
  operations run in the event loop while the client waits; how the wait ends is
  \<open>wait_for\<close> of the environment.
\<close>

definition call_rpc_remote ::
  "env \<Rightarrow> string \<Rightarrow> string \<Rightarrow> kwargs \<Rightarrow> (string \<times> nat) list option \<Rightarrow> payload action" where
  "call_rpc_remote E api_nm name kw options =
     bnd (lazy_load_now E) (\<lambda>_.
     (let rpc_transport = get_rpc_transport E api_nm;
          result_transport = get_result_transport E api_nm;
          kw1 = deform_kwargs E kw;
          rpc_msg0 = \<lparr>rpc_id = new_message_id E, api_name = api_nm, procedure_name = name,
                      kwargs = kw1, return_path = None\<rparr>
      in
      bnd (call (EGetReturnPath result_transport rpc_msg0) None) (\<lambda>_.
      (let rpc_msg = rpc_msg0\<lparr>return_path := Some (get_return_path E result_transport rpc_msg0)\<rparr>;
           options1 = (case options of None \<Rightarrow> [] | Some d \<Rightarrow> d);
           timeout = (case map_of options1 ''timeout'' of
                        Some t \<Rightarrow> t
                      | None \<Rightarrow> rpc_timeout E api_nm)
       in
       bnd (validate_name E api_nm ''rpc'' name) (\<lambda>_.
       bnd (validate E (MRpc rpc_msg) ''outgoing'' None None) (\<lambda>_.
       bnd (call (EGather rpc_msg rpc_transport) None) (\<lambda>_.
       bnd (execute_hook E ''before_rpc_call''
              \<lparr>kw_rpc_message = Some rpc_msg, kw_result_message = None\<rparr>) (\<lambda>_.
       bnd (call (EWaitFor timeout) None) (\<lambda>_.
       (case wait_for E rpc_msg timeout of
          WaitTimeout d \<Rightarrow>
            bnd (call EAwaitFuture
                   (case d of
                      DrainFinished \<Rightarrow> None
                    | DrainRaised e \<Rightarrow> if e = CancelledError then None else Some e)) (\<lambda>_.
            raise (LightbusTimeout (timeout_message rpc_msg timeout)))
        | WaitRaised e \<Rightarrow> raise e
        | WaitResult result_msg \<Rightarrow>
            bnd (execute_hook E ''after_rpc_call''
                   \<lparr>kw_rpc_message = Some rpc_msg, kw_result_message = Some result_msg\<rparr>) (\<lambda>_.
            if error result_msg
            then raise (LightbusServerError (server_error_message rpc_msg result_msg))
            else
              bnd (validate E (MResult result_msg) ''incoming'' (Some api_nm) (Some name)) (\<lambda>_.
              ret (result result_msg)))))))))))))"

subsection \<open>Running as a server\<close>










subsection \<open>Example values\<close>

text \<open>A client as \<open>BusClient.__init__\<close> leaves it, with all features.\<close>

definition new_client :: client where
  "new_client =
     \<lparr>event_listeners = [], consumers = [], background_coroutines = [],
      background_tasks = [], hook_callbacks = (\<lambda>_. []), features = [RPCS, EVENTS, TASKS],
      api_registry = [], server_shutdown_queue = False, shutdown_monitor_task = None,
      exit_code = 0, closed = False, server_tasks = [], lazy_load_complete = False,
      loop_tasks = []\<rparr>"

text \<open>
  Collaborators that never raise: one transport \<open>redis\<close> serves every API, every
  local method returns \<open>ok\<close>, and a remote call is answered with the result \<open>pong\<close>.
\<close>

definition quiet_env :: env where
  "quiet_env =
     \<lparr>ensure_loaded_raises = None, add_api_raises = (\<lambda>_. None), open_raises = (\<lambda>_. None),
      close_raises = (\<lambda>_. None), schema_transport_close_raises = None,
      invoker_stop_raises = None, cancel_raises = (\<lambda>_. None),
      cancelled_error_is_exception = False,
      get_all_transports = [''redis''],
      get_rpc_transports = (\<lambda>names. [(''redis'', names)]),
      get_rpc_transport = (\<lambda>_. ''redis''), get_result_transport = (\<lambda>_. ''redis''),
      get_return_path = (\<lambda>_ _. ''return-path''),
      validate_raises = (\<lambda>_ _ _ _. None), validate_name_raises = (\<lambda>_ _ _. None),
      callback_raises = (\<lambda>_ _ _. None), plugin_hook_raises = (\<lambda>_ _. None),
      event_client_listen = (\<lambda>_ _ _ _. Inr ''None''),
      cast_values = (\<lambda>_. False), cast_to_signature = (\<lambda>kw _ _. Inr kw),
      run_method = (\<lambda>_ _ _. Inr ''ok''), deform_to_bus = (\<lambda>v. v), deform_kwargs = (\<lambda>kw. kw),
      format_traceback = (\<lambda>_. ''Traceback''), send_result_raises = (\<lambda>_ _. None),
      new_message_id = ''id-1'', rpc_timeout = (\<lambda>_. 5),
      wait_for = (\<lambda>m _. WaitResult \<lparr>rpc_message_id = rpc_id m, result = ''pong'',
                                       error = False, trace = None\<rparr>)\<rparr>"

definition my_api :: api where
  "my_api = \<lparr>meta_name = ''my.api'', operations = [''ping'']\<rparr>"

text \<open>A client that serves \<open>my_api\<close> and has done its lazy loading, and a call of \<open>my.api.ping\<close>.\<close>

definition serving_client :: client where
  "serving_client = (register_api my_api new_client)\<lparr>lazy_load_complete := True\<rparr>"

definition ping_message :: rpc_message where
  "ping_message =
     \<lparr>rpc_id = ''id-7'', api_name = ''my.api'', procedure_name = ''ping'', kwargs = [],
      return_path = Some ''return-path''\<rparr>"





text \<open>
  Collaborators whose local methods differ: \<open>die\<close> raises \<open>SuddenDeathException\<close>,
  \<open>cancel\<close> raises \<open>CancelledError\<close>, \<open>boom\<close> raises another exception, every other
  method returns \<open>pong\<close>. A client that serves these methods and has done its lazy
  loading, and the message that calls a method.
\<close>

definition moody_env :: env where
  "moody_env =
     quiet_env\<lparr>run_method :=
       (\<lambda>a n kw. if n = ''die'' then Inl SuddenDeathException
                 else if n = ''cancel'' then Inl CancelledError
                 else if n = ''boom'' then Inl (OtherException ''boom'')
                 else Inr ''pong'')\<rparr>"

definition moody_api :: api where
  "moody_api = \<lparr>meta_name = ''my.api'', operations = [''ping'', ''boom'', ''die'', ''cancel'']\<rparr>"

definition moody_client :: client where
  "moody_client = (register_api moody_api new_client)\<lparr>lazy_load_complete := True\<rparr>"

definition call_of :: "string \<Rightarrow> rpc_message" where
  "call_of n =
     \<lparr>rpc_id = ''id-'' @ n, api_name = ''my.api'', procedure_name = n, kwargs = [],
      return_path = Some ''return-path''\<rparr>"

text \<open>
  The calls that the consume loop makes for a message of \<open>my.api\<close> up to the end of
  its local execution, and all its calls for a message answered with \<open>pong\<close>.
\<close>

abbreviation received :: "rpc_message \<Rightarrow> effect list" where
  "received m \<equiv>
     [EValidate (MRpc m) ''incoming'' None None,
      EPluginHook ''before_rpc_execution'' \<lparr>kw_rpc_message = Some m, kw_result_message = None\<rparr>,
      EValidateName ''my.api'' ''rpc'' (procedure_name m),
      ERunMethod ''my.api'' (procedure_name m) []]"

abbreviation pong_to :: "rpc_message \<Rightarrow> result_message" where
  "pong_to m \<equiv> \<lparr>rpc_message_id = rpc_id m, result = ''pong'', error = False, trace = None\<rparr>"

abbreviation answered :: "rpc_message \<Rightarrow> effect list" where
  "answered m \<equiv>
     received m
     @ [EPluginHook ''after_rpc_execution''
          \<lparr>kw_rpc_message = Some m, kw_result_message = Some (pong_to m)\<rparr>,
        EValidate (MResult (pong_to m)) ''outgoing'' (Some ''my.api'') (Some (procedure_name m)),
        ESendResult ''redis'' m (pong_to m) (Some ''return-path'')]"

subsection \<open>Invariants of actions\<close>



subsection \<open>Reading the list of calls\<close>

text \<open>
  The calls that a firing of a hook makes when no callback raises: the callbacks
  registered before the plugins, the plugin registry, the callbacks registered after.
\<close>

definition hook_calls :: "client \<Rightarrow> string \<Rightarrow> hook_kwargs \<Rightarrow> effect list" where
  "hook_calls c name kw =
     map (\<lambda>cb. ERunCallback cb name kw) (hook_callbacks c (name, True))
     @ [EPluginHook name kw]
     @ map (\<lambda>cb. ERunCallback cb name kw) (hook_callbacks c (name, False))"

text \<open>The hook a call belongs to, if it is the call of a callback or of the plugins.\<close>

fun hook_of :: "effect \<Rightarrow> string option" where
  "hook_of (ERunCallback cb name kw) = Some name"
| "hook_of (EPluginHook name kw) = Some name"
| "hook_of _ = None"

fun is_validate :: "effect \<Rightarrow> bool" where
  "is_validate (EValidate m direction a p) = True"
| "is_validate _ = False"

fun is_send_result :: "effect \<Rightarrow> bool" where
  "is_send_result (ESendResult t m r p) = True"
| "is_send_result _ = False"

text \<open>The message that \<open>call_rpc_remote\<close> builds, with its return path attached.\<close>

definition outgoing_rpc_message :: "env \<Rightarrow> string \<Rightarrow> string \<Rightarrow> kwargs \<Rightarrow> rpc_message" where
  "outgoing_rpc_message E api_nm name kw =
     \<lparr>rpc_id = new_message_id E, api_name = api_nm, procedure_name = name,
      kwargs = deform_kwargs E kw,
      return_path = Some (get_return_path E (get_result_transport E api_nm)
                      \<lparr>rpc_id = new_message_id E, api_name = api_nm, procedure_name = name,
                       kwargs = deform_kwargs E kw, return_path = None\<rparr>)\<rparr>"

section \<open>Properties\<close>

subsection \<open>Sequencing\<close>

lemma bnd_ret: "bnd (ret x) f c = f x c"
  by (simp add: bnd_def ret_def split: prod.splits)

lemma bnd_raise: "bnd (raise e) f c = (Inl e, c, [])"
  by (simp add: bnd_def raise_def)

lemma bnd_call:
  "bnd (call ev out) f c =
     (case out of
        None \<Rightarrow> (case f () c of (r, c2, ev2) \<Rightarrow> (r, c2, ev # ev2))
      | Some e \<Rightarrow> (Inl e, c, [ev]))"
  by (simp add: bnd_def call_def split: option.splits prod.splits)


text \<open>
  A loop of calls leaves the client as it is; it ends normally exactly when no call
  raised, and then it made every call, in order.
\<close>

lemma for_each_call:
  "for_each (\<lambda>x. call (f x) (out x)) xs c = (r, c1, ev) \<Longrightarrow>
     c1 = c \<and> (case r of Inr _ \<Rightarrow> ev = map f xs \<and> (\<forall>x\<in>set xs. out x = None)
                | Inl e \<Rightarrow> (\<exists>x\<in>set xs. out x = Some e))"
proof (induction xs arbitrary: r c1 ev)
  case Nil
  then show ?case by (auto simp: ret_def)
next
  case (Cons x xs)
  show ?case
  proof (cases "out x")
    case None
    obtain r' c' ev' where h: "for_each (\<lambda>x. call (f x) (out x)) xs c = (r', c', ev')"
      by (cases "for_each (\<lambda>x. call (f x) (out x)) xs c") auto
    from Cons.IH[OF h] Cons.prems None h show ?thesis
      by (auto simp: bnd_call split: sum.splits)
  next
    case (Some e)
    with Cons.prems show ?thesis by (auto simp: bnd_call)
  qed
qed

lemma for_each_call_ok:
  "\<forall>x\<in>set xs. out x = None \<Longrightarrow> for_each (\<lambda>x. call (f x) (out x)) xs c = (Inr (), c, map f xs)"
  by (induction xs) (auto simp: ret_def bnd_call)

subsection \<open>Closing twice\<close>








subsection \<open>Firing an event\<close>

text \<open>
  Claim C3. \<open>fire_event\<close> makes one call, \<open>event_client.listen\<close>, with the arguments it
  was given, and returns what that call returns. It validates nothing, fires no
  hook and sends nothing on an event transport.
\<close>

theorem fire_event_only_calls_listen:
  "fire_event E api_nm name kw options c =
     (event_client_listen E api_nm name kw options, c,
      [EEventClientListen api_nm name kw options])"
  by (simp add: fire_event_def call_value_def)

subsection \<open>Hooks and their registration\<close>

lemma run_callbacks_client:
  "run_callbacks E name kw cbs c = (r, c1, ev) \<Longrightarrow> c1 = c"
  unfolding run_callbacks_def by (drule for_each_call) simp

lemma run_callbacks_ok:
  "run_callbacks E name kw cbs c = (Inr (), c1, ev) \<Longrightarrow>
     ev = map (\<lambda>cb. ERunCallback cb name kw) cbs"
  unfolding run_callbacks_def by (drule for_each_call) simp

lemma execute_hook_client:
  assumes "execute_hook E name kw c = (r, c1, ev)"
  shows "c1 = c"
proof -
  obtain r1 c' ev1 where h1: "run_callbacks E name kw (hook_callbacks c (name, True)) c = (r1, c', ev1)"
    by (metis prod_cases3)
  obtain r2 c'' ev2 where h2: "run_callbacks E name kw (hook_callbacks c (name, False)) c = (r2, c'', ev2)"
    by (metis prod_cases3)
  from assms h1 h2 run_callbacks_client[OF h1] run_callbacks_client[OF h2] show ?thesis
    by (auto simp: execute_hook_def bnd_def call_def split: sum.splits option.splits)
qed

lemma execute_hook_ok:
  assumes "execute_hook E name kw c = (Inr (), c1, ev)"
  shows "ev = map (\<lambda>cb. ERunCallback cb name kw) (hook_callbacks c (name, True))
              @ [EPluginHook name kw]
              @ map (\<lambda>cb. ERunCallback cb name kw) (hook_callbacks c (name, False))"
proof -
  obtain r1 c' ev1 where h1: "run_callbacks E name kw (hook_callbacks c (name, True)) c = (r1, c', ev1)"
    by (metis prod_cases3)
  obtain r2 c'' ev2 where h2: "run_callbacks E name kw (hook_callbacks c (name, False)) c = (r2, c'', ev2)"
    by (metis prod_cases3)
  from assms h1 h2 run_callbacks_client[OF h1] run_callbacks_client[OF h2]
    run_callbacks_ok[of E name kw _ c c' ev1] run_callbacks_ok[of E name kw _ c c'' ev2]
  show ?thesis
    by (auto simp: execute_hook_def bnd_def call_def split: sum.splits option.splits)
qed






subsection \<open>Lazy loading, once\<close>

lemma lazy_load_now_complete:
  "lazy_load_complete c \<Longrightarrow> lazy_load_now E c = (Inr (), c, [])"
  by (simp add: lazy_load_now_def ret_def)

lemma lazy_load_now_ok:
  assumes "\<not> lazy_load_complete c" "ensure_loaded_raises E = None"
    "\<forall>a\<in>set (api_registry c). add_api_raises E (meta_name a) = None"
    "\<forall>t\<in>set (get_all_transports E). open_raises E t = None"
  shows "lazy_load_now E c =
           (Inr (), c\<lparr>lazy_load_complete := True\<rparr>,
            ESchemaEnsureLoaded # map (\<lambda>a. ESchemaAddApi (meta_name a)) (api_registry c)
              @ map ETransportOpen (get_all_transports E))"
  using assms
  by (simp add: lazy_load_now_def call_def bnd_def modify_def
        for_each_call_ok[where f = "\<lambda>a. ESchemaAddApi (meta_name a)"]
        for_each_call_ok[where f = ETransportOpen])

lemma lazy_load_now_times_complete:
  "lazy_load_complete c \<Longrightarrow> lazy_load_now_times E n c = (Inr (), c, [])"
  by (induction n) (simp_all add: ret_def bnd_def lazy_load_now_complete)

text \<open>
  Claim C1, as amended. Calls of \<open>lazy_load_now\<close> made one after the other, each
  awaited before the next, on a client that is not yet loaded and whose collaborators
  do not raise: the steps run exactly once (load the remote schemas, add every
  registered API to the schema, open every transport, set the flag), whatever the
  number of calls. On the client so marked a call returns at once and calls no
  collaborator, and so does a call that starts as a task of its own.
\<close>

theorem lazy_load_now_once_in_sequence:
  assumes "\<not> lazy_load_complete c" "ensure_loaded_raises E = None"
    "\<forall>a\<in>set (api_registry c). add_api_raises E (meta_name a) = None"
    "\<forall>t\<in>set (get_all_transports E). open_raises E t = None"
  shows "lazy_load_now_times E (Suc n) c =
           (Inr (), c\<lparr>lazy_load_complete := True\<rparr>,
            ESchemaEnsureLoaded # map (\<lambda>a. ESchemaAddApi (meta_name a)) (api_registry c)
              @ map ETransportOpen (get_all_transports E)) \<and>
         lazy_load_now E (c\<lparr>lazy_load_complete := True\<rparr>)
           = (Inr (), c\<lparr>lazy_load_complete := True\<rparr>, []) \<and>
         lazy_resume E LazyEntry (c\<lparr>lazy_load_complete := True\<rparr>)
           = (LazyReturned, c\<lparr>lazy_load_complete := True\<rparr>, [])"
  using lazy_load_now_ok[OF assms] lazy_load_now_times_complete[of "c\<lparr>lazy_load_complete := True\<rparr>" E n]
  by (simp add: bnd_def lazy_load_now_complete lazy_resume_def)

theorem lazy_load_now_once_in_sequence_witness:
  "lazy_load_now_times quiet_env 3 (register_api my_api new_client) =
     (Inr (), (register_api my_api new_client)\<lparr>lazy_load_complete := True\<rparr>,
      [ESchemaEnsureLoaded, ESchemaAddApi ''my.api'', ETransportOpen ''redis''])"
  using lazy_load_now_once_in_sequence[of "register_api my_api new_client" quiet_env 2]
  by (simp add: register_api_def registry_add_def my_api_def new_client_def quiet_env_def
        numeral_3_eq_3)

text \<open>
  Two calls of \<open>lazy_load_now\<close> that overlap: the second starts while the first is
  suspended in \<open>schema.ensure_loaded_from_bus()\<close>, so it finds the flag unset, and
  the event loop resumes them in turn. Both return, and every step has run twice.
\<close>

theorem lazy_load_now_concurrent_counterexample:
  "run_schedule quiet_env [0, 1, 0, 1, 0, 1, 0, 1] [LazyEntry, LazyEntry]
     (register_api my_api new_client) =
   ([LazyReturned, LazyReturned], (register_api my_api new_client)\<lparr>lazy_load_complete := True\<rparr>,
    [ESchemaEnsureLoaded, ESchemaEnsureLoaded,
     ESchemaAddApi ''my.api'', ESchemaAddApi ''my.api'',
     ETransportOpen ''redis'', ETransportOpen ''redis''])"
  by (simp add: lazy_resume_def resume_adding_def resume_opening_def
        register_api_def registry_add_def my_api_def new_client_def quiet_env_def)

subsection \<open>Consuming RPCs: the APIs to serve\<close>

lemma lazy_load_now_client:
  assumes "lazy_load_now E c = (r, c1, ev)"
  shows "c1 = (if r = Inr () then c\<lparr>lazy_load_complete := True\<rparr> else c)"
proof (cases "lazy_load_complete c")
  case True
  with assms show ?thesis by (auto simp: lazy_load_now_complete)
next
  case False
  obtain r1 c' ev1 where h1:
    "for_each (\<lambda>a. call (ESchemaAddApi (meta_name a)) (add_api_raises E (meta_name a)))
       (api_registry c) c = (r1, c', ev1)"
    by (metis prod_cases3)
  obtain r2 c'' ev2 where h2:
    "for_each (\<lambda>t. call (ETransportOpen t) (open_raises E t)) (get_all_transports E) c = (r2, c'', ev2)"
    by (metis prod_cases3)
  from assms False h1 h2 for_each_call[OF h1] for_each_call[OF h2] show ?thesis
    by (auto simp: lazy_load_now_def bnd_def call_def modify_def
          split: option.splits sum.splits)
qed

lemma lazy_load_now_registry:
  "lazy_load_now E c = (r, c1, ev) \<Longrightarrow> api_registry c1 = api_registry c"
  by (drule lazy_load_now_client) (simp split: if_splits)

lemma registry_get_result:
  "registry_get n c = (r, c1, ev) \<Longrightarrow>
     c1 = c \<and> ev = [] \<and>
     (case r of Inl e \<Rightarrow> e = UnknownApi n \<and> n \<notin> meta_name ` set (api_registry c)
              | Inr a \<Rightarrow> a \<in> set (api_registry c) \<and> meta_name a = n)"
  by (auto simp: registry_get_def raise_def ret_def find_None_iff find_Some_iff
        split: option.splits)

lemma map_registry_get_result:
  "map_action registry_get names c = (r, c1, ev) \<Longrightarrow>
     c1 = c \<and> ev = [] \<and>
     (case r of Inl e \<Rightarrow> \<exists>n\<in>set names. e = UnknownApi n \<and> n \<notin> meta_name ` set (api_registry c)
              | Inr as \<Rightarrow> set as \<subseteq> set (api_registry c) \<and> map meta_name as = names)"
proof (induction names arbitrary: r c1 ev)
  case Nil
  then show ?case by (auto simp: ret_def)
next
  case (Cons n names)
  obtain r1 c' ev1 where h1: "registry_get n c = (r1, c', ev1)" by (metis prod_cases3)
  obtain r2 c'' ev2 where h2: "map_action registry_get names c = (r2, c'', ev2)"
    by (metis prod_cases3)
  from Cons.prems h1 h2 registry_get_result[OF h1] Cons.IH[OF h2] show ?case
    by (auto simp: bnd_def ret_def split: sum.splits)
qed

lemma group_result:
  "bnd (map_action registry_get names) (\<lambda>transport_apis. ret (t, transport_apis)) c = (r, c1, ev) \<Longrightarrow>
     c1 = c \<and> ev = [] \<and>
     (case r of
        Inl e \<Rightarrow> \<exists>n\<in>set names. e = UnknownApi n \<and> n \<notin> meta_name ` set (api_registry c)
      | Inr g \<Rightarrow> fst g = t \<and> map meta_name (snd g) = names \<and> set (snd g) \<subseteq> set (api_registry c))"
proof -
  assume a: "bnd (map_action registry_get names) (\<lambda>transport_apis. ret (t, transport_apis)) c = (r, c1, ev)"
  obtain r1 c' ev1 where h1: "map_action registry_get names c = (r1, c', ev1)"
    by (metis prod_cases3)
  from a h1 map_registry_get_result[OF h1] show ?thesis
    by (auto simp: bnd_def ret_def split: sum.splits)
qed

lemma map_groups_result:
  "map_action (\<lambda>(rpc_transport, transport_api_names).
                  bnd (map_action registry_get transport_api_names) (\<lambda>transport_apis.
                  ret (rpc_transport, transport_apis))) gs c = (r, c1, ev) \<Longrightarrow>
     c1 = c \<and> ev = [] \<and>
     (case r of
        Inl e \<Rightarrow> \<exists>n\<in>\<Union>(set ` snd ` set gs). e = UnknownApi n \<and> n \<notin> meta_name ` set (api_registry c)
      | Inr cs \<Rightarrow> map fst cs = map fst gs \<and> map (\<lambda>(t, as). map meta_name as) cs = map snd gs
                  \<and> (\<forall>(t, as)\<in>set cs. set as \<subseteq> set (api_registry c)))"
proof (induction gs arbitrary: r c1 ev)
  case Nil
  then show ?case by (auto simp: ret_def)
next
  case (Cons g gs)
  let ?f = "\<lambda>(rpc_transport, transport_api_names).
                  bnd (map_action registry_get transport_api_names) (\<lambda>transport_apis.
                  ret (rpc_transport, transport_apis))"
  obtain t names where g: "g = (t, names)" by (cases g)
  obtain r1 c' ev1 where h1:
    "bnd (map_action registry_get names) (\<lambda>transport_apis. ret (t, transport_apis)) c = (r1, c', ev1)"
    by (metis prod_cases3)
  obtain r2 c'' ev2 where h2: "map_action ?f gs c = (r2, c'', ev2)"
    by (metis prod_cases3)
  note g1 = group_result[OF h1]
  note g2 = Cons.IH[OF h2]
  from g1 have c': "c' = c" and ev1: "ev1 = []" by simp_all
  from g2 have c'': "c'' = c" and ev2: "ev2 = []" by simp_all
  have fg: "?f g c = (r1, c, [])" using h1 g c' ev1 by simp
  have fgs: "map_action ?f gs c = (r2, c, [])" using h2 c'' ev2 by simp
  have res: "map_action ?f (g # gs) c =
               (case r1 of Inl e \<Rightarrow> (Inl e, c, [])
                | Inr x \<Rightarrow> (case r2 of Inl e \<Rightarrow> (Inl e, c, []) | Inr xs \<Rightarrow> (Inr (x # xs), c, [])))"
    by (simp add: bnd_def[of "?f g"] bnd_def[of "map_action ?f gs"] fg fgs ret_def
          split: sum.splits)
  show ?case
  proof (cases r1)
    case (Inl e)
    with res Cons.prems g1 g show ?thesis by fastforce
  next
    case r1: (Inr x)
    show ?thesis
    proof (cases r2)
      case (Inl e)
      with res r1 Cons.prems g2 show ?thesis by fastforce
    next
      case (Inr xs)
      with res r1 Cons.prems g1 g2 g show ?thesis by (cases x) auto
    qed
  qed
qed

text \<open>
  Claim C9. When lazy loading has returned, \<open>consume_rpcs\<close> raises \<open>NoApisToListenOn\<close>
  exactly when it was called with \<open>apis=[]\<close>, or with \<open>apis=None\<close> on an empty
  registry. With APIs to serve, all of them registered, it starts one task that
  gathers one consumer for each group that the transport registry gives for the
  names of these APIs, each consumer with the transport of the group and the
  registered APIs of its names, and records the task in \<open>_consumers\<close>.
\<close>

theorem consume_rpcs_no_apis:
  assumes "lazy_load_now E c = (Inr (), c1, ev1)"
  shows "(outcome (consume_rpcs E apis c) = Inl NoApisToListenOn
            \<longleftrightarrow> apis = Some [] \<or> (apis = None \<and> api_registry c = [])) \<and>
         (\<forall>apis1. apis1 = (case apis of None \<Rightarrow> api_registry c | Some as \<Rightarrow> as) \<and> apis1 \<noteq> [] \<and>
              (\<forall>n\<in>\<Union>(set ` snd ` set (get_rpc_transports E (map meta_name apis1))).
                   n \<in> meta_name ` set (api_registry c))
            \<longrightarrow> (\<exists>coroutines.
                   consume_rpcs E apis c =
                     (Inr (),
                      c1\<lparr>consumers := consumers c1
                            @ [\<lparr>task_body = GatherConsumers coroutines, is_listener = False\<rparr>],
                         loop_tasks := loop_tasks c1
                            @ [\<lparr>task_body = GatherConsumers coroutines, is_listener = False\<rparr>]\<rparr>,
                      ev1 @ [EEnsureFuture
                               \<lparr>task_body = GatherConsumers coroutines, is_listener = False\<rparr>]) \<and>
                   map fst coroutines = map fst (get_rpc_transports E (map meta_name apis1)) \<and>
                   map (\<lambda>(t, as). map meta_name as) coroutines
                     = map snd (get_rpc_transports E (map meta_name apis1))))"
proof -
  let ?apis1 = "case apis of None \<Rightarrow> api_registry c | Some as \<Rightarrow> as"
  let ?gs = "get_rpc_transports E (map meta_name ?apis1)"
  let ?f = "\<lambda>(rpc_transport, transport_api_names).
                  bnd (map_action registry_get transport_api_names) (\<lambda>transport_apis.
                  ret (rpc_transport, transport_apis))"
  have reg: "api_registry c1 = api_registry c"
    using lazy_load_now_registry[OF assms] .
  obtain r c' ev where h: "map_action ?f ?gs c1 = (r, c', ev)" by (metis prod_cases3)
  note g = map_groups_result[OF h]
  have empty: "?apis1 = [] \<longleftrightarrow> apis = Some [] \<or> (apis = None \<and> api_registry c = [])"
    by (cases apis) auto
  have unf: "consume_rpcs E apis c =
     (if ?apis1 = [] then (Inl NoApisToListenOn, c1, ev1)
      else (case r of
              Inl e \<Rightarrow> (Inl e, c1, ev1)
            | Inr cs \<Rightarrow>
                (Inr (),
                 c1\<lparr>consumers := consumers c1
                       @ [\<lparr>task_body = GatherConsumers cs, is_listener = False\<rparr>],
                    loop_tasks := loop_tasks c1
                       @ [\<lparr>task_body = GatherConsumers cs, is_listener = False\<rparr>]\<rparr>,
                 ev1 @ [EEnsureFuture \<lparr>task_body = GatherConsumers cs, is_listener = False\<rparr>])))"
    using assms h g reg
    by (auto simp: consume_rpcs_def bnd_def raise_def call_def modify_def Let_def
          split: sum.splits option.splits)
  have 1: "outcome (consume_rpcs E apis c) = Inl NoApisToListenOn
            \<longleftrightarrow> apis = Some [] \<or> (apis = None \<and> api_registry c = [])"
    using g empty unfolding unf by (auto simp: outcome_def split: sum.splits)
  have 2: "?apis1 \<noteq> [] \<Longrightarrow>
      \<forall>n\<in>\<Union>(set ` snd ` set ?gs). n \<in> meta_name ` set (api_registry c) \<Longrightarrow>
      \<exists>coroutines.
        consume_rpcs E apis c =
          (Inr (),
           c1\<lparr>consumers := consumers c1
                 @ [\<lparr>task_body = GatherConsumers coroutines, is_listener = False\<rparr>],
              loop_tasks := loop_tasks c1
                 @ [\<lparr>task_body = GatherConsumers coroutines, is_listener = False\<rparr>]\<rparr>,
           ev1 @ [EEnsureFuture \<lparr>task_body = GatherConsumers coroutines, is_listener = False\<rparr>]) \<and>
        map fst coroutines = map fst ?gs \<and>
        map (\<lambda>(t, as). map meta_name as) coroutines = map snd ?gs"
    using g reg unfolding unf by (cases r) auto
  from 1 2 show ?thesis by blast
qed

theorem consume_rpcs_no_apis_witness:
  "outcome (consume_rpcs quiet_env None new_client) = Inl NoApisToListenOn \<and>
   outcome (consume_rpcs quiet_env (Some []) (register_api my_api new_client)) = Inl NoApisToListenOn \<and>
   consume_rpcs quiet_env None (register_api my_api new_client) =
     (Inr (),
      (register_api my_api new_client)
        \<lparr>lazy_load_complete := True,
         consumers := [\<lparr>task_body = GatherConsumers [(''redis'', [my_api])], is_listener = False\<rparr>],
         loop_tasks := [\<lparr>task_body = GatherConsumers [(''redis'', [my_api])], is_listener = False\<rparr>]\<rparr>,
      [ESchemaEnsureLoaded, ESchemaAddApi ''my.api'', ETransportOpen ''redis'',
       EEnsureFuture \<lparr>task_body = GatherConsumers [(''redis'', [my_api])], is_listener = False\<rparr>])"
proof -
  have l1: "lazy_load_now quiet_env new_client =
     (Inr (), new_client\<lparr>lazy_load_complete := True\<rparr>, [ESchemaEnsureLoaded, ETransportOpen ''redis''])"
    by (simp add: lazy_load_now_def bnd_def call_def modify_def ret_def new_client_def quiet_env_def)
  have l2: "lazy_load_now quiet_env (register_api my_api new_client) =
     (Inr (), (register_api my_api new_client)\<lparr>lazy_load_complete := True\<rparr>,
      [ESchemaEnsureLoaded, ESchemaAddApi ''my.api'', ETransportOpen ''redis''])"
    by (simp add: lazy_load_now_def bnd_def call_def modify_def ret_def new_client_def quiet_env_def
          register_api_def registry_add_def my_api_def)
  have a: "outcome (consume_rpcs quiet_env None new_client) = Inl NoApisToListenOn"
    using consume_rpcs_no_apis[OF l1, of None] by (simp add: new_client_def)
  have b: "outcome (consume_rpcs quiet_env (Some []) (register_api my_api new_client)) = Inl NoApisToListenOn"
    using consume_rpcs_no_apis[OF l2, of "Some []"] by simp
  have c: "consume_rpcs quiet_env None (register_api my_api new_client) =
     (Inr (),
      (register_api my_api new_client)
        \<lparr>lazy_load_complete := True,
         consumers := [\<lparr>task_body = GatherConsumers [(''redis'', [my_api])], is_listener = False\<rparr>],
         loop_tasks := [\<lparr>task_body = GatherConsumers [(''redis'', [my_api])], is_listener = False\<rparr>]\<rparr>,
      [ESchemaEnsureLoaded, ESchemaAddApi ''my.api'', ETransportOpen ''redis'',
       EEnsureFuture \<lparr>task_body = GatherConsumers [(''redis'', [my_api])], is_listener = False\<rparr>])"
    by (simp add: consume_rpcs_def registry_get_def lazy_load_now_def bnd_def call_def modify_def
          Let_def ret_def raise_def new_client_def quiet_env_def register_api_def registry_add_def my_api_def)
  from a b c show ?thesis by simp
qed

subsection \<open>Server start without APIs\<close>

























subsection \<open>The consume loop\<close>

lemma execute_hook_returns:
  assumes "outcome (execute_hook E name kw c) = Inr ()"
  shows "execute_hook E name kw c = (Inr (), c, hook_calls c name kw)"
proof -
  obtain r c1 ev where h: "execute_hook E name kw c = (r, c1, ev)" by (metis prod_cases3)
  with assms have r: "r = Inr ()" by (simp add: outcome_def)
  from h r execute_hook_client[OF h] execute_hook_ok[of E name kw c c1 ev] show ?thesis
    by (simp add: hook_calls_def)
qed

lemma filter_hook_calls:
  "(\<And>cb. \<not> P (ERunCallback cb name kw)) \<Longrightarrow> \<not> P (EPluginHook name kw) \<Longrightarrow>
     filter P (hook_calls c name kw) = []"
  by (simp add: hook_calls_def filter_empty_conv)

lemma call_rpc_local_loaded:
  assumes "lazy_load_complete c" "call_rpc_local E a n kw c = (r, c1, ev1)"
  shows "c1 = c \<and> filter is_send_result ev1 = [] \<and> filter is_validate ev1 = []
         \<and> filter (\<lambda>e. hook_of e \<noteq> None) ev1 = []"
  using assms
  by (auto simp: call_rpc_local_def lazy_load_now_complete bnd_def registry_get_def
        validate_name_def call_def call_value_def raise_def ret_def
        split: option.splits if_splits sum.splits)

lemma send_result_loaded:
  "lazy_load_complete c \<Longrightarrow>
     send_result E m rm c =
       ((case send_result_raises E m rm of None \<Rightarrow> Inr () | Some e \<Rightarrow> Inl e), c,
        [ESendResult (get_result_transport E (api_name m)) m rm (return_path m)])"
  by (simp add: send_result_def lazy_load_now_complete bnd_def call_def)

text \<open>The loop body, once the incoming message is valid and the first hook has returned.\<close>

lemma handle_rpc_message_unfold:
  assumes v: "validate_raises E (MRpc m) ''incoming'' None None = None"
    and hb: "outcome (execute_hook E ''before_rpc_execution''
                \<lparr>kw_rpc_message = Some m, kw_result_message = None\<rparr> c) = Inr ()"
    and loc: "call_rpc_local E (api_name m) (procedure_name m) (kwargs m) c = (r, c1, ev1)"
  shows "handle_rpc_message E m c =
     (let pre = EValidate (MRpc m) ''incoming'' None None
                # hook_calls c ''before_rpc_execution''
                    \<lparr>kw_rpc_message = Some m, kw_result_message = None\<rparr> @ ev1
      in
      if r = Inl SuddenDeathException then (Inr False, c1, pre)
      else if r = Inl CancelledError then (Inl CancelledError, c1, pre)
      else
        (let result_msg = new_result_message E (map_sum id (deform_to_bus E) r) (rpc_id m) in
         case
           bnd (execute_hook E ''after_rpc_execution''
                  \<lparr>kw_rpc_message = Some m, kw_result_message = Some result_msg\<rparr>) (\<lambda>_.
           bnd (if \<not> error result_msg
                then validate E (MResult result_msg) ''outgoing''
                       (Some (api_name m)) (Some (procedure_name m))
                else ret ()) (\<lambda>_.
           bnd (send_result E m result_msg) (\<lambda>_.
           ret True))) c1
         of (r2, c2, ev2) \<Rightarrow> (r2, c2, pre @ ev2)))"
proof -
  note hb' = execute_hook_returns[OF hb]
  show ?thesis
  proof (cases r)
    case (Inr x)
    then show ?thesis
      by (simp add: handle_rpc_message_def validate_def bnd_call v bnd_def[of "execute_hook _ _ _"]
            hb' loc Let_def split: prod.splits)
  next
    case (Inl e)
    then show ?thesis
      by (cases e)
         (simp_all add: handle_rpc_message_def validate_def bnd_call v
            bnd_def[of "execute_hook _ _ _"] hb' loc Let_def split: prod.splits)
  qed
qed


text \<open>
  The loop at a message that comes after batches and messages already handled: what
  the handling of this message gives decides how the loop goes on.
\<close>

lemma handle_rpc_messages_append:
  "handle_rpc_messages E earlier c1 = (Inr True, c, evb) \<Longrightarrow>
     handle_rpc_messages E (earlier @ rest) c1 =
       (case handle_rpc_messages E rest c of (r, c2, ev2) \<Rightarrow> (r, c2, evb @ ev2))"
proof (induction earlier arbitrary: c1 evb)
  case Nil
  then show ?case by (simp add: ret_def split: prod.splits)
next
  case (Cons x xs)
  obtain rx cx evx where hx: "handle_rpc_message E x c1 = (rx, cx, evx)"
    by (metis prod_cases3)
  obtain rs cs evs where hs: "handle_rpc_messages E xs cx = (rs, cs, evs)"
    by (metis prod_cases3)
  from Cons.prems hx hs have rx: "rx = Inr True" and rs: "rs = Inr True"
    and cs: "cs = c" and evb: "evb = evx @ evs"
    by (auto simp: bnd_def ret_def split: sum.splits if_splits)
  from hs rs cs have hs': "handle_rpc_messages E xs cx = (Inr True, c, evs)" by simp
  show ?case
    using hx rx evb Cons.IH[OF hs', of ]
    by (simp add: bnd_def split: prod.splits)
qed

lemma consume_loop_append:
  "consume_loop E t apis batches c0 = (Inr ConsumerWaiting, c1, evs) \<Longrightarrow>
     consume_loop E t apis (batches @ rest) c0 =
       (case consume_loop E t apis rest c1 of (r, c2, ev2) \<Rightarrow> (r, c2, evs @ ev2))"
proof (induction batches arbitrary: c0 evs)
  case Nil
  then show ?case by (simp add: ret_def split: prod.splits)
next
  case (Cons x xs)
  show ?case
  proof (cases x)
    case (ConsumeRaises e)
    with Cons.prems show ?thesis
      by (simp add: bnd_call ret_def raise_def split: if_splits)
  next
    case (Messages ms)
    obtain rm cm evm where hm: "handle_rpc_messages E ms c0 = (rm, cm, evm)"
      by (metis prod_cases3)
    obtain rs cs evs' where hs: "consume_loop E t apis xs cm = (rs, cs, evs')"
      by (metis prod_cases3)
    from Cons.prems Messages hm hs have rm: "rm = Inr True" and rs: "rs = Inr ConsumerWaiting"
      and cs: "cs = c1" and evs: "evs = EConsumeRpcs t apis # evm @ evs'"
      by (auto simp: bnd_call bnd_def[of "handle_rpc_messages _ _"] ret_def
            split: sum.splits if_splits)
    from hs rs cs have hs': "consume_loop E t apis xs cm = (Inr ConsumerWaiting, c1, evs')"
      by simp
    show ?thesis
      using Messages hm rm evs Cons.IH[OF hs', of ]
      by (simp add: bnd_call bnd_def[of "handle_rpc_messages _ _"] split: prod.splits)
  qed
qed

lemma consume_at_message:
  assumes lz0: "lazy_load_now E c00 = (Inr (), c0, ev0)"
    and bs: "consume_loop E t apis batches c0 = (Inr ConsumerWaiting, c1, evs)"
    and ms: "handle_rpc_messages E earlier c1 = (Inr True, c, evb)"
    and hm: "handle_rpc_message E m c = (r, c', ev)"
  shows "consume_rpcs_with_transport E t apis
           (batches @ Messages (earlier @ m # later) # feed) c00 =
           (case r of
              Inl e \<Rightarrow> (Inl e, c', ev0 @ evs @ EConsumeRpcs t apis # evb @ ev)
            | Inr go_on \<Rightarrow>
                if go_on
                then (case bnd (handle_rpc_messages E later) (\<lambda>go_on.
                             if go_on then consume_loop E t apis feed else ret ConsumerReturned) c'
                      of (r2, c2, ev2) \<Rightarrow>
                        (r2, c2, ev0 @ evs @ EConsumeRpcs t apis # evb @ ev @ ev2))
                else (Inr ConsumerReturned, c', ev0 @ evs @ EConsumeRpcs t apis # evb @ ev))"
proof -
  let ?K = "\<lambda>go_on. if go_on then consume_loop E t apis feed else ret ConsumerReturned"
  have A: "consume_rpcs_with_transport E t apis
             (batches @ Messages (earlier @ m # later) # feed) c00 =
           (case consume_loop E t apis (batches @ Messages (earlier @ m # later) # feed) c0 of
              (r, c2, ev2) \<Rightarrow> (r, c2, ev0 @ ev2))"
    by (simp add: consume_rpcs_with_transport_def bnd_def[of "lazy_load_now E"] lz0)
  note B = consume_loop_append[OF bs, of "Messages (earlier @ m # later) # feed"]
  have C: "consume_loop E t apis (Messages (earlier @ m # later) # feed) c1 =
           (case handle_rpc_messages E (earlier @ m # later) c1 of
              (Inl e, c2, ev2) \<Rightarrow> (Inl e, c2, EConsumeRpcs t apis # ev2)
            | (Inr go_on, c2, ev2) \<Rightarrow>
                (case ?K go_on c2 of (r3, c3, ev3) \<Rightarrow> (r3, c3, EConsumeRpcs t apis # ev2 @ ev3)))"
    by (simp add: bnd_call bnd_def[of "handle_rpc_messages _ _"] split: prod.splits sum.splits)
  note D = handle_rpc_messages_append[OF ms, of "m # later"]
  have E: "handle_rpc_messages E (m # later) c =
           (case r of
              Inl e \<Rightarrow> (Inl e, c', ev)
            | Inr go_on \<Rightarrow>
                if go_on
                then (case handle_rpc_messages E later c' of (r2, c2, ev2) \<Rightarrow> (r2, c2, ev @ ev2))
                else (Inr False, c', ev))"
    by (simp add: bnd_def[of "handle_rpc_message _ _"] hm ret_def split: sum.splits)
  show ?thesis
    unfolding A B C D E
    by (simp add: bnd_def[of "handle_rpc_messages _ _"] ret_def split: sum.splits prod.splits)
qed

text \<open>
  Claim C7. In \<open>_consume_rpcs_with_transport\<close>, for a message \<open>m\<close> received after any
  batches and any earlier messages of its batch that were handled, valid and with
  its \<open>before_rpc_execution\<close> hook returned, when the local execution raises: on
  \<open>SuddenDeathException\<close> the consumer returns at once, and on \<open>CancelledError\<close> it
  raises \<open>CancelledError\<close>; in both cases no result is sent for \<open>m\<close>, the later
  messages of the batch are not handled and the transport is not asked again. On any
  other exception the result message built from it is an error, its result is the
  description of the exception, and (the \<open>after_rpc_execution\<close> hook and the result
  transport not raising) it is sent through the result transport, after which the
  loop goes on with the later messages of the batch and then with the transport. When
  the transport's \<open>consume_rpcs\<close> raises \<open>TransportIsClosed\<close>, after any batches handled,
  the consumer returns normally.
\<close>

theorem consume_loop_exceptions:
  assumes lz0: "lazy_load_now E c00 = (Inr (), c0, ev0)"
    and bs: "consume_loop E t apis batches c0 = (Inr ConsumerWaiting, c1, evs)"
    and ms: "handle_rpc_messages E earlier c1 = (Inr True, c, evb)"
    and lz: "lazy_load_complete c"
    and v: "validate_raises E (MRpc m) ''incoming'' None None = None"
    and hb: "outcome (execute_hook E ''before_rpc_execution''
                \<lparr>kw_rpc_message = Some m, kw_result_message = None\<rparr> c) = Inr ()"
    and loc: "call_rpc_local E (api_name m) (procedure_name m) (kwargs m) c = (Inl e, cl, ev1)"
    and pre: "pre = EValidate (MRpc m) ''incoming'' None None
                # hook_calls c ''before_rpc_execution''
                    \<lparr>kw_rpc_message = Some m, kw_result_message = None\<rparr> @ ev1"
    and rm: "rm = new_result_message E (Inl e) (rpc_id m)"
    and reached: "reached = ev0 @ evs @ EConsumeRpcs t apis # evb @ pre"
  shows "(e = SuddenDeathException \<longrightarrow>
            consume_rpcs_with_transport E t apis
              (batches @ Messages (earlier @ m # later) # feed) c00
              = (Inr ConsumerReturned, c, reached)) \<and>
         (e = CancelledError \<longrightarrow>
            consume_rpcs_with_transport E t apis
              (batches @ Messages (earlier @ m # later) # feed) c00
              = (Inl CancelledError, c, reached)) \<and>
         filter is_send_result pre = [] \<and>
         (e \<noteq> SuddenDeathException \<and> e \<noteq> CancelledError \<and>
          outcome (execute_hook E ''after_rpc_execution''
                     \<lparr>kw_rpc_message = Some m, kw_result_message = Some rm\<rparr> c) = Inr () \<and>
          send_result_raises E m rm = None \<longrightarrow>
            error rm \<and> result rm = exn_str e \<and>
            consume_rpcs_with_transport E t apis
              (batches @ Messages (earlier @ m # later) # feed) c00
              = (case bnd (handle_rpc_messages E later) (\<lambda>go_on.
                         if go_on then consume_loop E t apis feed else ret ConsumerReturned) c
                 of (r2, c2, ev2) \<Rightarrow>
                   (r2, c2,
                    reached
                    @ hook_calls c ''after_rpc_execution''
                        \<lparr>kw_rpc_message = Some m, kw_result_message = Some rm\<rparr>
                    @ [ESendResult (get_result_transport E (api_name m)) m rm (return_path m)]
                    @ ev2))) \<and>
         consume_rpcs_with_transport E t apis
           (batches @ ConsumeRaises TransportIsClosed # feed) c00
           = (Inr ConsumerReturned, c1, ev0 @ evs @ [EConsumeRpcs t apis])"
proof -
  note u = handle_rpc_message_unfold[OF v hb loc]
  note l = call_rpc_local_loaded[OF lz loc]
  from l have cl: "cl = c" by simp
  have 1: "e = SuddenDeathException \<longrightarrow>
            consume_rpcs_with_transport E t apis
              (batches @ Messages (earlier @ m # later) # feed) c00
              = (Inr ConsumerReturned, c, reached)"
  proof
    assume e: "e = SuddenDeathException"
    have "handle_rpc_message E m c = (Inr False, c, pre)"
      using u e cl pre by (simp add: Let_def)
    from consume_at_message[OF lz0 bs ms this] show
      "consume_rpcs_with_transport E t apis
              (batches @ Messages (earlier @ m # later) # feed) c00
              = (Inr ConsumerReturned, c, reached)" by (simp add: reached)
  qed
  have 2: "e = CancelledError \<longrightarrow>
            consume_rpcs_with_transport E t apis
              (batches @ Messages (earlier @ m # later) # feed) c00
              = (Inl CancelledError, c, reached)"
  proof
    assume e: "e = CancelledError"
    have "handle_rpc_message E m c = (Inl CancelledError, c, pre)"
      using u e cl pre by (simp add: Let_def)
    from consume_at_message[OF lz0 bs ms this] show
      "consume_rpcs_with_transport E t apis
              (batches @ Messages (earlier @ m # later) # feed) c00
              = (Inl CancelledError, c, reached)" by (simp add: reached)
  qed
  have 3: "filter is_send_result pre = []"
    using l pre by (simp add: filter_hook_calls)
  have 4: "e \<noteq> SuddenDeathException \<and> e \<noteq> CancelledError \<and>
          outcome (execute_hook E ''after_rpc_execution''
                     \<lparr>kw_rpc_message = Some m, kw_result_message = Some rm\<rparr> c) = Inr () \<and>
          send_result_raises E m rm = None \<longrightarrow>
            error rm \<and> result rm = exn_str e \<and>
            consume_rpcs_with_transport E t apis
              (batches @ Messages (earlier @ m # later) # feed) c00
              = (case bnd (handle_rpc_messages E later) (\<lambda>go_on.
                         if go_on then consume_loop E t apis feed else ret ConsumerReturned) c
                 of (r2, c2, ev2) \<Rightarrow>
                   (r2, c2,
                    reached
                    @ hook_calls c ''after_rpc_execution''
                        \<lparr>kw_rpc_message = Some m, kw_result_message = Some rm\<rparr>
                    @ [ESendResult (get_result_transport E (api_name m)) m rm (return_path m)]
                    @ ev2))"
  proof (intro impI, elim conjE)
    assume e: "e \<noteq> SuddenDeathException" "e \<noteq> CancelledError"
      and ha: "outcome (execute_hook E ''after_rpc_execution''
                     \<lparr>kw_rpc_message = Some m, kw_result_message = Some rm\<rparr> c) = Inr ()"
      and s: "send_result_raises E m rm = None"
    have er: "error rm" "result rm = exn_str e" using rm by (simp_all add: new_result_message_def)
    have rm': "new_result_message E (Inl e) (rpc_id m) = rm"
      using rm by simp
    have hm: "handle_rpc_message E m c =
              (Inr True, c,
               pre @ hook_calls c ''after_rpc_execution''
                       \<lparr>kw_rpc_message = Some m, kw_result_message = Some rm\<rparr>
                   @ [ESendResult (get_result_transport E (api_name m)) m rm (return_path m)])"
      using er e cl
      by (simp add: u rm' Let_def execute_hook_returns[OF ha] bnd_def[of "execute_hook _ _ _"]
            bnd_ret send_result_loaded[OF lz] bnd_def[of "send_result _ _ _"] s ret_def pre)
    from consume_at_message[OF lz0 bs ms hm, of later feed] er show
      "error rm \<and> result rm = exn_str e \<and>
            consume_rpcs_with_transport E t apis
              (batches @ Messages (earlier @ m # later) # feed) c00
              = (case bnd (handle_rpc_messages E later) (\<lambda>go_on.
                         if go_on then consume_loop E t apis feed else ret ConsumerReturned) c
                 of (r2, c2, ev2) \<Rightarrow>
                   (r2, c2,
                    reached
                    @ hook_calls c ''after_rpc_execution''
                        \<lparr>kw_rpc_message = Some m, kw_result_message = Some rm\<rparr>
                    @ [ESendResult (get_result_transport E (api_name m)) m rm (return_path m)]
                    @ ev2))"
      by (simp add: reached split: prod.splits)
  qed
  have 5: "consume_rpcs_with_transport E t apis
           (batches @ ConsumeRaises TransportIsClosed # feed) c00
           = (Inr ConsumerReturned, c1, ev0 @ evs @ [EConsumeRpcs t apis])"
    using consume_loop_append[OF bs, of "ConsumeRaises TransportIsClosed # feed"]
    by (simp add: consume_rpcs_with_transport_def bnd_def[of "lazy_load_now E"] lz0
          bnd_call ret_def)
  from 1 2 3 4 5 show ?thesis by blast
qed

lemma example_local_call:
  "call_rpc_local (quiet_env\<lparr>run_method := (\<lambda>_ _ _. out)\<rparr>) ''my.api'' ''ping'' [] serving_client
     = (out, serving_client, [EValidateName ''my.api'' ''rpc'' ''ping'', ERunMethod ''my.api'' ''ping'' []])"
  by (simp add: call_rpc_local_def lazy_load_now_def registry_get_def validate_name_def
        bnd_def call_def call_value_def ret_def raise_def serving_client_def register_api_def
        registry_add_def my_api_def new_client_def quiet_env_def)

lemma example_hook:
  "execute_hook (quiet_env\<lparr>run_method := f\<rparr>) name kw serving_client
     = (Inr (), serving_client, [EPluginHook name kw])"
  by (simp add: execute_hook_def run_callbacks_def bnd_def call_def ret_def serving_client_def
        register_api_def new_client_def quiet_env_def)

lemma example_hook_calls:
  "hook_calls serving_client name kw = [EPluginHook name kw]"
  by (simp add: hook_calls_def serving_client_def register_api_def new_client_def)

lemma moody_lazy:
  "lazy_load_now moody_env moody_client = (Inr (), moody_client, [])"
  by (simp add: lazy_load_now_def ret_def moody_client_def)

lemma moody_local:
  "n \<in> {''ping'', ''boom'', ''die'', ''cancel''} \<Longrightarrow>
   call_rpc_local moody_env ''my.api'' n [] moody_client
     = (run_method moody_env ''my.api'' n [], moody_client,
        [EValidateName ''my.api'' ''rpc'' n, ERunMethod ''my.api'' n []])"
  by (auto simp: call_rpc_local_def lazy_load_now_def registry_get_def validate_name_def
        bnd_def call_def call_value_def ret_def raise_def moody_client_def register_api_def
        registry_add_def moody_api_def new_client_def quiet_env_def moody_env_def)

lemma moody_hook:
  "execute_hook moody_env name kw moody_client = (Inr (), moody_client, [EPluginHook name kw])"
  by (simp add: execute_hook_def run_callbacks_def bnd_def call_def ret_def moody_client_def
        register_api_def new_client_def quiet_env_def moody_env_def)

lemma moody_hook_calls:
  "hook_calls moody_client name kw = [EPluginHook name kw]"
  by (simp add: hook_calls_def moody_client_def register_api_def new_client_def)

lemma moody_answer_one:
  "handle_rpc_message moody_env (call_of ''ping'') moody_client
     = (Inr True, moody_client, answered (call_of ''ping''))"
proof -
  have v: "\<And>msg d oa op. validate_raises moody_env msg d oa op = None"
    by (simp add: moody_env_def quiet_env_def)
  have s: "\<And>m r. send_result_raises moody_env m r = None"
          "\<And>a. get_result_transport moody_env a = ''redis''"
          "\<And>v. deform_to_bus moody_env v = v"
    by (simp_all add: moody_env_def quiet_env_def)
  have lz: "lazy_load_complete moody_client" by (simp add: moody_client_def)
  have hb: "outcome (execute_hook moody_env ''before_rpc_execution''
              \<lparr>kw_rpc_message = Some (call_of ''ping''), kw_result_message = None\<rparr>
              moody_client) = Inr ()"
    by (simp add: moody_hook outcome_def)
  have loc: "call_rpc_local moody_env (api_name (call_of ''ping''))
               (procedure_name (call_of ''ping'')) (kwargs (call_of ''ping'')) moody_client
             = (Inr ''pong'', moody_client,
                [EValidateName ''my.api'' ''rpc'' ''ping'', ERunMethod ''my.api'' ''ping'' []])"
    by (simp add: call_of_def moody_local) (simp add: moody_env_def)
  show ?thesis
    unfolding handle_rpc_message_unfold[OF v hb loc]
    by (simp add: Let_def moody_hook_calls new_result_message_def s moody_hook
          bnd_def[of "execute_hook _ _ _"] validate_def bnd_call v
          send_result_loaded[OF lz] bnd_def[of "send_result _ _ _"] ret_def call_of_def)
qed

lemma moody_answer:
  "handle_rpc_messages moody_env [call_of ''ping''] moody_client
     = (Inr True, moody_client, answered (call_of ''ping''))"
  by (simp add: bnd_def[of "handle_rpc_message _ _"] moody_answer_one ret_def)

theorem consume_loop_exceptions_witness:
  "consume_rpcs_with_transport moody_env ''redis'' [moody_api]
       [Messages [call_of ''ping''],
        Messages [call_of ''ping'', call_of ''die'', call_of ''ping''],
        Messages [call_of ''ping'']] moody_client
     = (Inr ConsumerReturned, moody_client,
        EConsumeRpcs ''redis'' [moody_api] # answered (call_of ''ping'')
        @ EConsumeRpcs ''redis'' [moody_api] # answered (call_of ''ping'')
        @ received (call_of ''die'')) \<and>
   consume_rpcs_with_transport moody_env ''redis'' [moody_api]
       [Messages [call_of ''ping'', call_of ''cancel'', call_of ''ping''],
        Messages [call_of ''ping'']] moody_client
     = (Inl CancelledError, moody_client,
        EConsumeRpcs ''redis'' [moody_api] # answered (call_of ''ping'')
        @ received (call_of ''cancel'')) \<and>
   consume_rpcs_with_transport moody_env ''redis'' [moody_api]
       [Messages [call_of ''boom'', call_of ''ping''],
        ConsumeRaises TransportIsClosed,
        Messages [call_of ''ping'']] moody_client
     = (Inr ConsumerReturned, moody_client,
        EConsumeRpcs ''redis'' [moody_api] # received (call_of ''boom'')
        @ [EPluginHook ''after_rpc_execution''
             \<lparr>kw_rpc_message = Some (call_of ''boom''),
              kw_result_message = Some \<lparr>rpc_message_id = ''id-boom'', result = ''boom'',
                                         error = True, trace = Some ''Traceback''\<rparr>\<rparr>,
           ESendResult ''redis'' (call_of ''boom'')
             \<lparr>rpc_message_id = ''id-boom'', result = ''boom'', error = True,
              trace = Some ''Traceback''\<rparr>
             (Some ''return-path'')]
        @ answered (call_of ''ping'')
        @ [EConsumeRpcs ''redis'' [moody_api]])"
proof -
  have lz: "lazy_load_complete moody_client" by (simp add: moody_client_def)
  have v: "\<And>m. validate_raises moody_env (MRpc m) ''incoming'' None None = None"
    by (simp add: moody_env_def quiet_env_def)
  have hb: "\<And>m. outcome (execute_hook moody_env ''before_rpc_execution''
                \<lparr>kw_rpc_message = Some m, kw_result_message = None\<rparr> moody_client) = Inr ()"
    by (simp add: moody_hook outcome_def)
  have none: "handle_rpc_messages moody_env [] moody_client = (Inr True, moody_client, [])"
             "consume_loop moody_env ''redis'' [moody_api] [] moody_client
                = (Inr ConsumerWaiting, moody_client, [])"
    by (simp_all add: ret_def)
  have batch: "consume_loop moody_env ''redis'' [moody_api] [Messages [call_of ''ping'']]
                 moody_client
               = (Inr ConsumerWaiting, moody_client,
                  EConsumeRpcs ''redis'' [moody_api] # answered (call_of ''ping''))"
    by (simp add: bnd_call bnd_def[of "handle_rpc_messages _ _"] moody_answer ret_def
          del: handle_rpc_messages.simps)
  have die: "call_rpc_local moody_env (api_name (call_of ''die'')) (procedure_name (call_of ''die''))
               (kwargs (call_of ''die'')) moody_client
             = (Inl SuddenDeathException, moody_client,
                [EValidateName ''my.api'' ''rpc'' ''die'', ERunMethod ''my.api'' ''die'' []])"
    by (simp add: call_of_def moody_local) (simp add: moody_env_def)
  have cancel: "call_rpc_local moody_env (api_name (call_of ''cancel''))
               (procedure_name (call_of ''cancel'')) (kwargs (call_of ''cancel'')) moody_client
             = (Inl CancelledError, moody_client,
                [EValidateName ''my.api'' ''rpc'' ''cancel'', ERunMethod ''my.api'' ''cancel'' []])"
    by (simp add: call_of_def moody_local) (simp add: moody_env_def)
  have boom: "call_rpc_local moody_env (api_name (call_of ''boom''))
               (procedure_name (call_of ''boom'')) (kwargs (call_of ''boom'')) moody_client
             = (Inl (OtherException ''boom''), moody_client,
                [EValidateName ''my.api'' ''rpc'' ''boom'', ERunMethod ''my.api'' ''boom'' []])"
    by (simp add: call_of_def moody_local) (simp add: moody_env_def)
  have a: "new_result_message moody_env (Inl (OtherException ''boom'')) (rpc_id (call_of ''boom''))
           = \<lparr>rpc_message_id = ''id-boom'', result = ''boom'', error = True,
              trace = Some ''Traceback''\<rparr>"
    by (simp add: new_result_message_def call_of_def moody_env_def quiet_env_def)
  have b: "\<And>a. get_result_transport moody_env a = ''redis''"
          "\<And>m r. send_result_raises moody_env m r = None"
    by (simp_all add: moody_env_def quiet_env_def)
  have f: "\<And>n. procedure_name (call_of n) = n"
          "\<And>n. return_path (call_of n) = Some ''return-path''"
    by (simp_all add: call_of_def)
  have rest: "bnd (handle_rpc_messages moody_env [call_of ''ping'']) (\<lambda>go_on.
                 if go_on
                 then consume_loop moody_env ''redis'' [moody_api]
                        [ConsumeRaises TransportIsClosed, Messages [call_of ''ping'']]
                 else ret ConsumerReturned) moody_client
              = (Inr ConsumerReturned, moody_client,
                 answered (call_of ''ping'') @ [EConsumeRpcs ''redis'' [moody_api]])"
    by (simp add: bnd_def[of "handle_rpc_messages _ _"] moody_answer bnd_call ret_def
          del: handle_rpc_messages.simps)
  from consume_loop_exceptions[OF moody_lazy batch moody_answer lz v hb die refl refl refl,
         of "[call_of ''ping'']" "[Messages [call_of ''ping'']]"]
       consume_loop_exceptions[OF moody_lazy none(2) moody_answer lz v hb cancel refl refl refl,
         of "[call_of ''ping'']" "[Messages [call_of ''ping'']]"]
       consume_loop_exceptions[OF moody_lazy none(2) none(1) lz v hb boom refl refl refl,
         of "[call_of ''ping'']" "[ConsumeRaises TransportIsClosed, Messages [call_of ''ping'']]"]
  show ?thesis
    by (simp add: moody_hook_calls moody_hook outcome_def a b rest f
          del: handle_rpc_messages.simps consume_loop.simps)
qed

subsection \<open>Result messages\<close>

text \<open>
  Claim C6. For the result message that the consume loop builds from a local
  execution (valid incoming message, both hooks returning): when the execution
  raised, the message is an error, its result is the description of the exception,
  and the only call after the hook is the sending of the result, with no validation
  of the result; when the execution returned a value, the message is no error, its
  result is the deformed value, the message is validated as outgoing for the API and
  the procedure, and it is sent only after this validation has passed.
\<close>

theorem result_message_validation:
  assumes lz: "lazy_load_complete c"
    and v: "validate_raises E (MRpc m) ''incoming'' None None = None"
    and hb: "outcome (execute_hook E ''before_rpc_execution''
                \<lparr>kw_rpc_message = Some m, kw_result_message = None\<rparr> c) = Inr ()"
    and loc: "call_rpc_local E (api_name m) (procedure_name m) (kwargs m) c = (r, c1, ev1)"
    and r: "r \<noteq> Inl SuddenDeathException" "r \<noteq> Inl CancelledError"
    and rm: "rm = new_result_message E (map_sum id (deform_to_bus E) r) (rpc_id m)"
    and ha: "outcome (execute_hook E ''after_rpc_execution''
                \<lparr>kw_rpc_message = Some m, kw_result_message = Some rm\<rparr> c) = Inr ()"
    and pre: "pre = EValidate (MRpc m) ''incoming'' None None
                # hook_calls c ''before_rpc_execution''
                    \<lparr>kw_rpc_message = Some m, kw_result_message = None\<rparr>
                @ ev1
                @ hook_calls c ''after_rpc_execution''
                    \<lparr>kw_rpc_message = Some m, kw_result_message = Some rm\<rparr>"
    and out: "out = EValidate (MResult rm) ''outgoing'' (Some (api_name m)) (Some (procedure_name m))"
    and snd: "send = ESendResult (get_result_transport E (api_name m)) m rm (return_path m)"
  shows "(case r of
            Inl e \<Rightarrow>
              error rm \<and> result rm = exn_str e \<and>
              handle_rpc_message E m c =
                ((case send_result_raises E m rm of None \<Rightarrow> Inr True | Some e' \<Rightarrow> Inl e'),
                 c, pre @ [send]) \<and>
              filter is_validate (pre @ [send]) = [EValidate (MRpc m) ''incoming'' None None]
          | Inr x \<Rightarrow>
              \<not> error rm \<and> result rm = deform_to_bus E x \<and>
              handle_rpc_message E m c =
                (case validate_raises E (MResult rm) ''outgoing''
                        (Some (api_name m)) (Some (procedure_name m)) of
                   Some e' \<Rightarrow> (Inl e', c, pre @ [out])
                 | None \<Rightarrow>
                     ((case send_result_raises E m rm of None \<Rightarrow> Inr True | Some e' \<Rightarrow> Inl e'),
                      c, pre @ [out, send])) \<and>
              filter is_validate (pre @ [out, send]) = [EValidate (MRpc m) ''incoming'' None None, out])"
proof -
  note u = handle_rpc_message_unfold[OF v hb loc]
  note l = call_rpc_local_loaded[OF lz loc]
  from l have c1: "c1 = c" by simp
  have fpre: "filter is_validate pre = [EValidate (MRpc m) ''incoming'' None None]"
    using l pre by (simp add: filter_hook_calls)
  have rm': "new_result_message E (map_sum id (deform_to_bus E) r) (rpc_id m) = rm"
    using rm by simp
  show ?thesis
  proof (cases r)
    case (Inl e)
    have er: "error rm" "result rm = exn_str e" using rm Inl by (simp_all add: new_result_message_def)
    have "handle_rpc_message E m c =
                ((case send_result_raises E m rm of None \<Rightarrow> Inr True | Some e' \<Rightarrow> Inl e'),
                 c, pre @ [send])"
      using r er c1 unfolding u rm' Let_def
      by (simp add: execute_hook_returns[OF ha] bnd_def[of "execute_hook _ _ _"]
            bnd_ret send_result_loaded[OF lz] bnd_def[of "send_result _ _ _"] ret_def pre snd
          split: option.splits)
    with Inl er fpre snd show ?thesis by simp
  next
    case (Inr x)
    have er: "\<not> error rm" "result rm = deform_to_bus E x"
      using rm Inr by (simp_all add: new_result_message_def)
    have "handle_rpc_message E m c =
                (case validate_raises E (MResult rm) ''outgoing''
                        (Some (api_name m)) (Some (procedure_name m)) of
                   Some e' \<Rightarrow> (Inl e', c, pre @ [out])
                 | None \<Rightarrow>
                     ((case send_result_raises E m rm of None \<Rightarrow> Inr True | Some e' \<Rightarrow> Inl e'),
                      c, pre @ [out, send]))"
      using r er c1 unfolding u rm' Let_def
      by (simp add: execute_hook_returns[OF ha] bnd_def[of "execute_hook _ _ _"]
            validate_def bnd_call send_result_loaded[OF lz] bnd_def[of "send_result _ _ _"]
            ret_def pre snd out
          split: option.splits)
    with Inr er fpre snd out show ?thesis by simp
  qed
qed


theorem result_message_validation_witness:
  "handle_rpc_message (quiet_env\<lparr>run_method := (\<lambda>_ _ _. Inr ''pong'')\<rparr>)
       ping_message serving_client
     = (Inr True, serving_client,
        [EValidate (MRpc ping_message) ''incoming'' None None,
         EPluginHook ''before_rpc_execution''
           \<lparr>kw_rpc_message = Some ping_message, kw_result_message = None\<rparr>,
         EValidateName ''my.api'' ''rpc'' ''ping'', ERunMethod ''my.api'' ''ping'' [],
         EPluginHook ''after_rpc_execution''
           \<lparr>kw_rpc_message = Some ping_message,
            kw_result_message = Some \<lparr>rpc_message_id = ''id-7'', result = ''pong'',
                                       error = False, trace = None\<rparr>\<rparr>,
         EValidate (MResult \<lparr>rpc_message_id = ''id-7'', result = ''pong'',
                             error = False, trace = None\<rparr>)
           ''outgoing'' (Some ''my.api'') (Some ''ping''),
         ESendResult ''redis'' ping_message
           \<lparr>rpc_message_id = ''id-7'', result = ''pong'', error = False, trace = None\<rparr>
           (Some ''return-path'')]) \<and>
   handle_rpc_message (quiet_env\<lparr>run_method := (\<lambda>_ _ _. Inl (OtherException ''boom''))\<rparr>)
       ping_message serving_client
     = (Inr True, serving_client,
        [EValidate (MRpc ping_message) ''incoming'' None None,
         EPluginHook ''before_rpc_execution''
           \<lparr>kw_rpc_message = Some ping_message, kw_result_message = None\<rparr>,
         EValidateName ''my.api'' ''rpc'' ''ping'', ERunMethod ''my.api'' ''ping'' [],
         EPluginHook ''after_rpc_execution''
           \<lparr>kw_rpc_message = Some ping_message,
            kw_result_message = Some \<lparr>rpc_message_id = ''id-7'', result = ''boom'',
                                       error = True, trace = Some ''Traceback''\<rparr>\<rparr>,
         ESendResult ''redis'' ping_message
           \<lparr>rpc_message_id = ''id-7'', result = ''boom'', error = True, trace = Some ''Traceback''\<rparr>
           (Some ''return-path'')])"
proof -
  let ?E = "\<lambda>out. quiet_env\<lparr>run_method := (\<lambda>_ _ _. out)\<rparr>"
  have lz: "lazy_load_complete serving_client" by (simp add: serving_client_def)
  have v: "\<And>r. validate_raises (?E r) (MRpc ping_message) ''incoming'' None None = None"
    by (simp add: quiet_env_def)
  have hb: "\<And>r. outcome (execute_hook (?E r) ''before_rpc_execution''
                \<lparr>kw_rpc_message = Some ping_message, kw_result_message = None\<rparr> serving_client) = Inr ()"
    by (simp add: example_hook outcome_def)
  have ha: "\<And>r rm. outcome (execute_hook (?E r) ''after_rpc_execution''
                \<lparr>kw_rpc_message = Some ping_message, kw_result_message = Some rm\<rparr> serving_client) = Inr ()"
    by (simp add: example_hook outcome_def)
  have loc: "\<And>r. call_rpc_local (?E r) (api_name ping_message) (procedure_name ping_message)
               (kwargs ping_message) serving_client
             = (r, serving_client,
                [EValidateName ''my.api'' ''rpc'' ''ping'', ERunMethod ''my.api'' ''ping'' []])"
    by (simp add: ping_message_def example_local_call)
  have a: "new_result_message quiet_env (Inl (OtherException ''boom'')) (rpc_id ping_message)
           = \<lparr>rpc_message_id = ''id-7'', result = ''boom'', error = True, trace = Some ''Traceback''\<rparr>"
     "new_result_message quiet_env (Inr ''pong'') (rpc_id ping_message)
           = \<lparr>rpc_message_id = ''id-7'', result = ''pong'', error = False, trace = None\<rparr>"
    by (simp_all add: new_result_message_def ping_message_def quiet_env_def)
  have b: "\<And>a. get_result_transport quiet_env a = ''redis''"
       "return_path ping_message = Some ''return-path''"
       "api_name ping_message = ''my.api''" "procedure_name ping_message = ''ping''"
       "\<And>rm. send_result_raises quiet_env ping_message rm = None"
       "\<And>rm d a p. validate_raises quiet_env rm d a p = None"
       "deform_to_bus quiet_env = (\<lambda>v. v)"
    by (simp_all add: ping_message_def quiet_env_def)
  have n: "\<And>out. new_result_message (?E out) = new_result_message quiet_env"
    by (rule ext)+ (simp add: new_result_message_def split: sum.splits)
  from result_message_validation[OF lz v hb loc _ _ refl ha refl refl refl, of "Inr ''pong''"]
       result_message_validation[OF lz v hb loc _ _ refl ha refl refl refl, of "Inl (OtherException ''boom'')"]
  show ?thesis
    by (simp add: example_hook_calls n a b)
qed

subsection \<open>Calling a remote procedure\<close>

lemma lazy_load_now_effects:
  assumes "lazy_load_now E c = (Inr (), c1, ev0)"
  shows "ev0 = [] \<or>
         ev0 = ESchemaEnsureLoaded # map (\<lambda>a. ESchemaAddApi (meta_name a)) (api_registry c)
                 @ map ETransportOpen (get_all_transports E)"
proof (cases "lazy_load_complete c")
  case True
  with assms show ?thesis by (simp add: lazy_load_now_complete)
next
  case False
  obtain r1 c' ev1 where h1:
    "for_each (\<lambda>a. call (ESchemaAddApi (meta_name a)) (add_api_raises E (meta_name a)))
       (api_registry c) c = (r1, c', ev1)"
    by (metis prod_cases3)
  obtain r2 c'' ev2 where h2:
    "for_each (\<lambda>t. call (ETransportOpen t) (open_raises E t)) (get_all_transports E) c = (r2, c'', ev2)"
    by (metis prod_cases3)
  from assms False h1 h2 for_each_call[OF h1] for_each_call[OF h2] show ?thesis
    by (auto simp: lazy_load_now_def bnd_def call_def modify_def
          split: option.splits sum.splits)
qed

lemma lazy_load_now_no_hooks:
  assumes "lazy_load_now E c = (Inr (), c1, ev0)"
  shows "filter (\<lambda>e. hook_of e = Some name) ev0 = []"
  using lazy_load_now_effects[OF assms] by (auto simp: filter_empty_conv)

lemma call_rpc_remote_unfold:
  assumes lz: "lazy_load_now E c = (Inr (), c1, ev0)"
    and vn: "validate_name_raises E a ''rpc'' n = None"
    and vo: "validate_raises E (MRpc (outgoing_rpc_message E a n kw)) ''outgoing'' None None = None"
    and hb: "outcome (execute_hook E ''before_rpc_call''
               \<lparr>kw_rpc_message = Some (outgoing_rpc_message E a n kw), kw_result_message = None\<rparr>
               c1) = Inr ()"
    and t: "t = (case map_of (case options of None \<Rightarrow> [] | Some d \<Rightarrow> d) ''timeout'' of
                   Some x \<Rightarrow> x | None \<Rightarrow> rpc_timeout E a)"
    and pre: "pre = ev0
                @ [EGetReturnPath (get_result_transport E a)
                     ((outgoing_rpc_message E a n kw)\<lparr>return_path := None\<rparr>),
                   EValidateName a ''rpc'' n,
                   EValidate (MRpc (outgoing_rpc_message E a n kw)) ''outgoing'' None None,
                   EGather (outgoing_rpc_message E a n kw) (get_rpc_transport E a)]
                @ hook_calls c1 ''before_rpc_call''
                    \<lparr>kw_rpc_message = Some (outgoing_rpc_message E a n kw), kw_result_message = None\<rparr>
                @ [EWaitFor t]"
  shows "call_rpc_remote E a n kw options c =
     (case wait_for E (outgoing_rpc_message E a n kw) t of
        WaitTimeout d \<Rightarrow>
          (case d of
             DrainFinished \<Rightarrow>
               (Inl (LightbusTimeout (timeout_message (outgoing_rpc_message E a n kw) t)), c1,
                pre @ [EAwaitFuture])
           | DrainRaised e \<Rightarrow>
               (if e = CancelledError
                then Inl (LightbusTimeout (timeout_message (outgoing_rpc_message E a n kw) t))
                else Inl e, c1, pre @ [EAwaitFuture]))
      | WaitRaised e \<Rightarrow> (Inl e, c1, pre)
      | WaitResult rm \<Rightarrow>
          (case bnd (execute_hook E ''after_rpc_call''
                   \<lparr>kw_rpc_message = Some (outgoing_rpc_message E a n kw),
                    kw_result_message = Some rm\<rparr>) (\<lambda>_.
                if error rm
                then raise (LightbusServerError
                              (server_error_message (outgoing_rpc_message E a n kw) rm))
                else
                  bnd (validate E (MResult rm) ''incoming'' (Some a) (Some n)) (\<lambda>_.
                  ret (result rm))) c1
           of (r, c2, ev) \<Rightarrow> (r, c2, pre @ ev)))"
proof -
  note hb' = execute_hook_returns[OF hb, unfolded outgoing_rpc_message_def]
  note vo' = vo[unfolded outgoing_rpc_message_def]
  show ?thesis
    unfolding call_rpc_remote_def pre t outgoing_rpc_message_def
    by (simp add: bnd_def[of "lazy_load_now E"] lz Let_def bnd_call validate_name_def validate_def
          vn vo' bnd_def[of "execute_hook _ _ _"] hb' raise_def
        split: waited.splits drained.splits prod.splits option.splits)
qed


text \<open>
  Claim C4. In \<open>call_rpc_remote\<close>, once lazy loading has returned, the name and the
  outgoing message are valid and the \<open>before_rpc_call\<close> hook has returned, the client
  waits for the gathered receive and send with the deadline \<open>t\<close>: the \<open>timeout\<close> entry
  of the options when there is one, the \<open>rpc_timeout\<close> of the API otherwise. The hook
  has fired before the wait. When the deadline passes and the drained future ends
  cancelled or finished, the call raises \<open>LightbusTimeout\<close> after awaiting the future
  once more, and no callback or plugin of \<open>after_rpc_call\<close> has run. When a result
  message arrives, error or not, \<open>after_rpc_call\<close> fires with this message right after
  the wait.
\<close>

theorem call_rpc_remote_timeout:
  assumes lz: "lazy_load_now E c = (Inr (), c1, ev0)"
    and vn: "validate_name_raises E a ''rpc'' n = None"
    and vo: "validate_raises E (MRpc m) ''outgoing'' None None = None"
    and hb: "outcome (execute_hook E ''before_rpc_call''
               \<lparr>kw_rpc_message = Some m, kw_result_message = None\<rparr> c1) = Inr ()"
    and m: "m = outgoing_rpc_message E a n kw"
    and t: "t = (case map_of (case options of None \<Rightarrow> [] | Some d \<Rightarrow> d) ''timeout'' of
                   Some x \<Rightarrow> x | None \<Rightarrow> rpc_timeout E a)"
    and pre: "pre = ev0
                @ [EGetReturnPath (get_result_transport E a) (m\<lparr>return_path := None\<rparr>),
                   EValidateName a ''rpc'' n,
                   EValidate (MRpc m) ''outgoing'' None None,
                   EGather m (get_rpc_transport E a)]
                @ hook_calls c1 ''before_rpc_call''
                    \<lparr>kw_rpc_message = Some m, kw_result_message = None\<rparr>
                @ [EWaitFor t]"
  shows "(wait_for E m t = WaitTimeout DrainFinished \<or>
          wait_for E m t = WaitTimeout (DrainRaised CancelledError) \<longrightarrow>
            call_rpc_remote E a n kw options c =
              (Inl (LightbusTimeout (timeout_message m t)), c1, pre @ [EAwaitFuture]) \<and>
            filter (\<lambda>e. hook_of e = Some ''after_rpc_call'') (pre @ [EAwaitFuture]) = []) \<and>
         (\<forall>rm. wait_for E m t = WaitResult rm \<and>
               outcome (execute_hook E ''after_rpc_call''
                  \<lparr>kw_rpc_message = Some m, kw_result_message = Some rm\<rparr> c1) = Inr () \<longrightarrow>
            effects (call_rpc_remote E a n kw options c) =
              pre @ hook_calls c1 ''after_rpc_call''
                      \<lparr>kw_rpc_message = Some m, kw_result_message = Some rm\<rparr>
                  @ (if error rm then []
                     else [EValidate (MResult rm) ''incoming'' (Some a) (Some n)])) \<and>
         (options = None \<longrightarrow> t = rpc_timeout E a) \<and>
         (\<forall>d x. options = Some d \<and> map_of d ''timeout'' = Some x \<longrightarrow> t = x) \<and>
         (\<forall>d. options = Some d \<and> map_of d ''timeout'' = None \<longrightarrow> t = rpc_timeout E a)"
proof -
  note u = call_rpc_remote_unfold[OF lz vn vo[unfolded m] hb[unfolded m] t pre[unfolded m], folded m]
  have nh: "filter (\<lambda>e. hook_of e = Some ''after_rpc_call'') (pre @ [EAwaitFuture]) = []"
    unfolding pre using lazy_load_now_no_hooks[OF lz, of "''after_rpc_call''"]
    by (simp add: hook_calls_def filter_empty_conv)
  have 1: "wait_for E m t = WaitTimeout DrainFinished \<or>
          wait_for E m t = WaitTimeout (DrainRaised CancelledError) \<longrightarrow>
            call_rpc_remote E a n kw options c =
              (Inl (LightbusTimeout (timeout_message m t)), c1, pre @ [EAwaitFuture]) \<and>
            filter (\<lambda>e. hook_of e = Some ''after_rpc_call'') (pre @ [EAwaitFuture]) = []"
    using nh by (auto simp: u)
  have 2: "\<forall>rm. wait_for E m t = WaitResult rm \<and>
               outcome (execute_hook E ''after_rpc_call''
                  \<lparr>kw_rpc_message = Some m, kw_result_message = Some rm\<rparr> c1) = Inr () \<longrightarrow>
            effects (call_rpc_remote E a n kw options c) =
              pre @ hook_calls c1 ''after_rpc_call''
                      \<lparr>kw_rpc_message = Some m, kw_result_message = Some rm\<rparr>
                  @ (if error rm then []
                     else [EValidate (MResult rm) ''incoming'' (Some a) (Some n)])"
  proof (intro allI impI, elim conjE)
    fix rm
    assume w: "wait_for E m t = WaitResult rm"
      and ha: "outcome (execute_hook E ''after_rpc_call''
                  \<lparr>kw_rpc_message = Some m, kw_result_message = Some rm\<rparr> c1) = Inr ()"
    show "effects (call_rpc_remote E a n kw options c) =
              pre @ hook_calls c1 ''after_rpc_call''
                      \<lparr>kw_rpc_message = Some m, kw_result_message = Some rm\<rparr>
                  @ (if error rm then []
                     else [EValidate (MResult rm) ''incoming'' (Some a) (Some n)])"
      by (simp add: u w bnd_def[of "execute_hook _ _ _"] execute_hook_returns[OF ha]
            raise_def validate_def bnd_call ret_def effects_def split: option.splits)
  qed
  have 3: "(options = None \<longrightarrow> t = rpc_timeout E a) \<and>
         (\<forall>d x. options = Some d \<and> map_of d ''timeout'' = Some x \<longrightarrow> t = x) \<and>
         (\<forall>d. options = Some d \<and> map_of d ''timeout'' = None \<longrightarrow> t = rpc_timeout E a)"
    using t by auto
  from 1 2 3 show ?thesis by blast
qed

text \<open>
  Claim C5. In \<open>call_rpc_remote\<close>, when the wait gives a result message and the
  \<open>after_rpc_call\<close> hook has returned: if the message is an error, the call raises
  \<open>LightbusServerError\<close> and nothing else is called; the text of the exception
  contains the canonical name of the procedure, the result of the message and its
  trace. If the message is no error, it is validated as incoming for the API and the
  procedure, and the call returns the result of the message when the validation passes.
\<close>

theorem call_rpc_remote_result:
  assumes lz: "lazy_load_now E c = (Inr (), c1, ev0)"
    and vn: "validate_name_raises E a ''rpc'' n = None"
    and vo: "validate_raises E (MRpc m) ''outgoing'' None None = None"
    and hb: "outcome (execute_hook E ''before_rpc_call''
               \<lparr>kw_rpc_message = Some m, kw_result_message = None\<rparr> c1) = Inr ()"
    and m: "m = outgoing_rpc_message E a n kw"
    and t: "t = (case map_of (case options of None \<Rightarrow> [] | Some d \<Rightarrow> d) ''timeout'' of
                   Some x \<Rightarrow> x | None \<Rightarrow> rpc_timeout E a)"
    and pre: "pre = ev0
                @ [EGetReturnPath (get_result_transport E a) (m\<lparr>return_path := None\<rparr>),
                   EValidateName a ''rpc'' n,
                   EValidate (MRpc m) ''outgoing'' None None,
                   EGather m (get_rpc_transport E a)]
                @ hook_calls c1 ''before_rpc_call''
                    \<lparr>kw_rpc_message = Some m, kw_result_message = None\<rparr>
                @ [EWaitFor t]"
    and w: "wait_for E m t = WaitResult rm"
    and ha: "outcome (execute_hook E ''after_rpc_call''
               \<lparr>kw_rpc_message = Some m, kw_result_message = Some rm\<rparr> c1) = Inr ()"
  shows "(error rm \<longrightarrow>
            call_rpc_remote E a n kw options c =
              (Inl (LightbusServerError (server_error_message m rm)), c1,
               pre @ hook_calls c1 ''after_rpc_call''
                       \<lparr>kw_rpc_message = Some m, kw_result_message = Some rm\<rparr>) \<and>
            sublist (result rm) (server_error_message m rm) \<and>
            sublist (case trace rm of None \<Rightarrow> ''None'' | Some x \<Rightarrow> x)
              (server_error_message m rm) \<and>
            sublist (canonical_name m) (server_error_message m rm)) \<and>
         (\<not> error rm \<longrightarrow>
            call_rpc_remote E a n kw options c =
              ((case validate_raises E (MResult rm) ''incoming'' (Some a) (Some n) of
                  None \<Rightarrow> Inr (result rm) | Some e \<Rightarrow> Inl e),
               c1,
               pre @ hook_calls c1 ''after_rpc_call''
                       \<lparr>kw_rpc_message = Some m, kw_result_message = Some rm\<rparr>
                   @ [EValidate (MResult rm) ''incoming'' (Some a) (Some n)]))"
proof -
  note u = call_rpc_remote_unfold[OF lz vn vo[unfolded m] hb[unfolded m] t pre[unfolded m], folded m]
  have s1: "sublist (result rm) (server_error_message m rm)"
    unfolding server_error_message_def sublist_def by (metis append.assoc)
  have s2: "sublist (case trace rm of None \<Rightarrow> ''None'' | Some x \<Rightarrow> x) (server_error_message m rm)"
    unfolding server_error_message_def sublist_def by (metis append.assoc append_Nil2)
  have s3: "sublist (canonical_name m) (server_error_message m rm)"
    unfolding server_error_message_def sublist_def by (metis append.assoc)
  have c: "call_rpc_remote E a n kw options c =
      (if error rm
       then (Inl (LightbusServerError (server_error_message m rm)), c1,
               pre @ hook_calls c1 ''after_rpc_call''
                       \<lparr>kw_rpc_message = Some m, kw_result_message = Some rm\<rparr>)
       else ((case validate_raises E (MResult rm) ''incoming'' (Some a) (Some n) of
                  None \<Rightarrow> Inr (result rm) | Some e \<Rightarrow> Inl e),
               c1,
               pre @ hook_calls c1 ''after_rpc_call''
                       \<lparr>kw_rpc_message = Some m, kw_result_message = Some rm\<rparr>
                   @ [EValidate (MResult rm) ''incoming'' (Some a) (Some n)]))"
    by (simp add: u w bnd_def[of "execute_hook _ _ _"] execute_hook_returns[OF ha]
          raise_def validate_def bnd_call ret_def split: option.splits)
  from c s1 s2 s3 show ?thesis by simp
qed


lemma example_remote_call:
  "lazy_load_now (quiet_env\<lparr>wait_for := f\<rparr>) new_client
     = (Inr (), new_client\<lparr>lazy_load_complete := True\<rparr>,
        [ESchemaEnsureLoaded, ETransportOpen ''redis''])"
  "validate_name_raises (quiet_env\<lparr>wait_for := f\<rparr>) a ty n = None"
  "validate_raises (quiet_env\<lparr>wait_for := f\<rparr>) msg d oa op = None"
  "outcome (execute_hook (quiet_env\<lparr>wait_for := f\<rparr>) name kw
              (new_client\<lparr>lazy_load_complete := True\<rparr>)) = Inr ()"
  "hook_calls (new_client\<lparr>lazy_load_complete := True\<rparr>) name kw = [EPluginHook name kw]"
  "outgoing_rpc_message (quiet_env\<lparr>wait_for := f\<rparr>) a n kws = outgoing_rpc_message quiet_env a n kws"
  "get_result_transport quiet_env a = ''redis''"
  "get_rpc_transport quiet_env a = ''redis''"
  "rpc_timeout quiet_env a = 5"
  "validate_raises quiet_env msg d oa op = None"
  by (simp_all add: lazy_load_now_def execute_hook_def run_callbacks_def hook_calls_def
        outgoing_rpc_message_def outcome_def bnd_def call_def modify_def ret_def
        new_client_def quiet_env_def)

theorem call_rpc_remote_timeout_witness:
  "call_rpc_remote (quiet_env\<lparr>wait_for := (\<lambda>_ _. WaitTimeout (DrainRaised CancelledError))\<rparr>)
       ''my.api'' ''ping'' [] (Some [(''timeout'', 2)]) new_client
     = (Inl (LightbusTimeout
               (timeout_message (outgoing_rpc_message quiet_env ''my.api'' ''ping'' []) 2)),
        new_client\<lparr>lazy_load_complete := True\<rparr>,
        [ESchemaEnsureLoaded, ETransportOpen ''redis'',
         EGetReturnPath ''redis''
           ((outgoing_rpc_message quiet_env ''my.api'' ''ping'' [])\<lparr>return_path := None\<rparr>),
         EValidateName ''my.api'' ''rpc'' ''ping'',
         EValidate (MRpc (outgoing_rpc_message quiet_env ''my.api'' ''ping'' [])) ''outgoing'' None None,
         EGather (outgoing_rpc_message quiet_env ''my.api'' ''ping'' []) ''redis'',
         EPluginHook ''before_rpc_call''
           \<lparr>kw_rpc_message = Some (outgoing_rpc_message quiet_env ''my.api'' ''ping'' []),
            kw_result_message = None\<rparr>,
         EWaitFor 2, EAwaitFuture]) \<and>
   effects (call_rpc_remote
              (quiet_env\<lparr>wait_for := (\<lambda>m _. WaitResult \<lparr>rpc_message_id = rpc_id m, result = ''pong'',
                                                         error = False, trace = None\<rparr>)\<rparr>)
              ''my.api'' ''ping'' [] None new_client)
     = [ESchemaEnsureLoaded, ETransportOpen ''redis'',
        EGetReturnPath ''redis''
          ((outgoing_rpc_message quiet_env ''my.api'' ''ping'' [])\<lparr>return_path := None\<rparr>),
        EValidateName ''my.api'' ''rpc'' ''ping'',
        EValidate (MRpc (outgoing_rpc_message quiet_env ''my.api'' ''ping'' [])) ''outgoing'' None None,
        EGather (outgoing_rpc_message quiet_env ''my.api'' ''ping'' []) ''redis'',
        EPluginHook ''before_rpc_call''
          \<lparr>kw_rpc_message = Some (outgoing_rpc_message quiet_env ''my.api'' ''ping'' []),
           kw_result_message = None\<rparr>,
        EWaitFor 5,
        EPluginHook ''after_rpc_call''
          \<lparr>kw_rpc_message = Some (outgoing_rpc_message quiet_env ''my.api'' ''ping'' []),
           kw_result_message =
             Some \<lparr>rpc_message_id = ''id-1'', result = ''pong'', error = False, trace = None\<rparr>\<rparr>,
        EValidate (MResult \<lparr>rpc_message_id = ''id-1'', result = ''pong'', error = False, trace = None\<rparr>)
          ''incoming'' (Some ''my.api'') (Some ''ping'')]"
proof -
  let ?f = "\<lambda>(_::rpc_message) (_::nat). WaitTimeout (DrainRaised CancelledError)"
  let ?g = "\<lambda>(m::rpc_message) (_::nat). WaitResult \<lparr>rpc_message_id = rpc_id m, result = ''pong'',
                                                         error = False, trace = None\<rparr>"
  have i: "rpc_id (outgoing_rpc_message quiet_env ''my.api'' ''ping'' []) = ''id-1''"
    by (simp add: outgoing_rpc_message_def quiet_env_def)
  from call_rpc_remote_timeout[OF example_remote_call(1)[of ?f] example_remote_call(2)
         example_remote_call(3) example_remote_call(4) refl refl refl,
         of "''my.api''" "''ping''" "[]" "Some [(''timeout'', 2)]"]
       call_rpc_remote_timeout[OF example_remote_call(1)[of ?g] example_remote_call(2)
         example_remote_call(3) example_remote_call(4) refl refl refl,
         of "''my.api''" "''ping''" "[]" None]
  show ?thesis
    by (simp add: example_remote_call i)
qed

theorem call_rpc_remote_result_witness:
  "outcome (call_rpc_remote
              (quiet_env\<lparr>wait_for := (\<lambda>m _. WaitResult \<lparr>rpc_message_id = rpc_id m, result = ''boom'',
                                                         error = True, trace = Some ''T''\<rparr>)\<rparr>)
              ''my.api'' ''ping'' [] None new_client)
     = Inl (LightbusServerError
              (''Error while calling my.api.ping: boom'' @ [CHR 0x0A]
               @ ''Remote stack trace:'' @ [CHR 0x0A] @ ''T'')) \<and>
   effects (call_rpc_remote
              (quiet_env\<lparr>wait_for := (\<lambda>m _. WaitResult \<lparr>rpc_message_id = rpc_id m, result = ''boom'',
                                                         error = True, trace = Some ''T''\<rparr>)\<rparr>)
              ''my.api'' ''ping'' [] None new_client)
     = [ESchemaEnsureLoaded, ETransportOpen ''redis'',
        EGetReturnPath ''redis''
          ((outgoing_rpc_message quiet_env ''my.api'' ''ping'' [])\<lparr>return_path := None\<rparr>),
        EValidateName ''my.api'' ''rpc'' ''ping'',
        EValidate (MRpc (outgoing_rpc_message quiet_env ''my.api'' ''ping'' [])) ''outgoing'' None None,
        EGather (outgoing_rpc_message quiet_env ''my.api'' ''ping'' []) ''redis'',
        EPluginHook ''before_rpc_call''
          \<lparr>kw_rpc_message = Some (outgoing_rpc_message quiet_env ''my.api'' ''ping'' []),
           kw_result_message = None\<rparr>,
        EWaitFor 5,
        EPluginHook ''after_rpc_call''
          \<lparr>kw_rpc_message = Some (outgoing_rpc_message quiet_env ''my.api'' ''ping'' []),
           kw_result_message =
             Some \<lparr>rpc_message_id = ''id-1'', result = ''boom'', error = True, trace = Some ''T''\<rparr>\<rparr>] \<and>
   outcome (call_rpc_remote
              (quiet_env\<lparr>wait_for := (\<lambda>m _. WaitResult \<lparr>rpc_message_id = rpc_id m, result = ''pong'',
                                                         error = False, trace = None\<rparr>)\<rparr>)
              ''my.api'' ''ping'' [] None new_client)
     = Inr ''pong''"
proof -
  let ?f = "\<lambda>(m::rpc_message) (_::nat). WaitResult \<lparr>rpc_message_id = rpc_id m, result = ''boom'',
                                                         error = True, trace = Some ''T''\<rparr>"
  let ?g = "\<lambda>(m::rpc_message) (_::nat). WaitResult \<lparr>rpc_message_id = rpc_id m, result = ''pong'',
                                                         error = False, trace = None\<rparr>"
  have i: "rpc_id (outgoing_rpc_message quiet_env ''my.api'' ''ping'' []) = ''id-1''"
    "canonical_name (outgoing_rpc_message quiet_env ''my.api'' ''ping'' []) = ''my.api.ping''"
    by (simp_all add: outgoing_rpc_message_def canonical_name_def quiet_env_def)
  have wf: "wait_for (quiet_env\<lparr>wait_for := ?f\<rparr>)
              (outgoing_rpc_message (quiet_env\<lparr>wait_for := ?f\<rparr>) ''my.api'' ''ping'' []) 5
            = WaitResult \<lparr>rpc_message_id = ''id-1'', result = ''boom'', error = True, trace = Some ''T''\<rparr>"
    by (simp add: example_remote_call i)
  have wg: "wait_for (quiet_env\<lparr>wait_for := ?g\<rparr>)
              (outgoing_rpc_message (quiet_env\<lparr>wait_for := ?g\<rparr>) ''my.api'' ''ping'' []) 5
            = WaitResult \<lparr>rpc_message_id = ''id-1'', result = ''pong'', error = False, trace = None\<rparr>"
    by (simp add: example_remote_call i)
  have t: "\<And>f. (5::nat) = (case map_of (case None of None \<Rightarrow> [] | Some d \<Rightarrow> d) ''timeout'' of
                   Some x \<Rightarrow> x | None \<Rightarrow> rpc_timeout (quiet_env\<lparr>wait_for := f\<rparr>) ''my.api'')"
    by (simp add: example_remote_call)
  from call_rpc_remote_result[OF example_remote_call(1)[of ?f] example_remote_call(2)
         example_remote_call(3) example_remote_call(4) refl t refl wf example_remote_call(4)]
       call_rpc_remote_result[OF example_remote_call(1)[of ?g] example_remote_call(2)
         example_remote_call(3) example_remote_call(4) refl t refl wg example_remote_call(4)]
  show ?thesis
    by (simp add: example_remote_call i outcome_def effects_def server_error_message_def)
qed

subsection \<open>The cut coroutine and the whole call agree\<close>

lemma bnd_bnd_call:
  "bnd (bnd (call ev out) f) k c =
     (case out of
        None \<Rightarrow> (case bnd (f ()) k c of (r, c2, ev2) \<Rightarrow> (r, c2, ev # ev2))
      | Some e \<Rightarrow> (Inl e, c, [ev]))"
  by (simp add: bnd_def call_def split: option.splits prod.splits sum.splits)

lemma run_alone_ended:
  "pc = LazyReturned \<or> pc = LazyRaised e \<Longrightarrow>
     run_schedule E (replicate j 0) [pc] c = ([pc], c, [])"
  by (induction j) (auto simp: lazy_resume_def)

lemma run_alone_opening:
  "length ts < j \<Longrightarrow>
     run_schedule E (replicate j 0) [LazyOpening ts] c =
       (case bnd (for_each (\<lambda>t. call (ETransportOpen t) (open_raises E t)) ts) (\<lambda>_.
               modify (\<lambda>c2. c2\<lparr>lazy_load_complete := True\<rparr>)) c
        of (r, c1, ev) \<Rightarrow> ([ended r], c1, ev))"
proof (induction ts arbitrary: j)
  case Nil
  then obtain j' where j: "j = Suc j'" by (cases j) auto
  show ?case
    by (simp add: j lazy_resume_def resume_opening_def bnd_ret modify_def ended_def
          run_alone_ended[of LazyReturned])
next
  case (Cons t ts)
  then obtain j' where j: "j = Suc j'" and l: "length ts < j'" by (cases j) auto
  show ?case
  proof (cases "open_raises E t")
    case None
    have L: "run_schedule E (replicate j 0) [LazyOpening (t # ts)] c =
             (case run_schedule E (replicate j' 0) [LazyOpening ts] c of
                (pcs, c2, ev2) \<Rightarrow> (pcs, c2, ETransportOpen t # ev2))"
      by (simp add: j lazy_resume_def resume_opening_def None)
    show ?thesis
      unfolding L Cons.IH[OF l]
      by (simp add: bnd_bnd_call None split: prod.splits)
  next
    case (Some e)
    then show ?thesis
      by (simp add: j lazy_resume_def resume_opening_def ended_def bnd_bnd_call
            run_alone_ended[of "LazyRaised e" e])
  qed
qed

lemma run_alone_adding:
  "length as + length (get_all_transports E) < j \<Longrightarrow>
     run_schedule E (replicate j 0) [LazyAdding as] c =
       (case bnd (for_each (\<lambda>a. call (ESchemaAddApi (meta_name a)) (add_api_raises E (meta_name a))) as) (\<lambda>_.
             bnd (for_each (\<lambda>t. call (ETransportOpen t) (open_raises E t)) (get_all_transports E)) (\<lambda>_.
               modify (\<lambda>c2. c2\<lparr>lazy_load_complete := True\<rparr>))) c
        of (r, c1, ev) \<Rightarrow> ([ended r], c1, ev))"
proof (induction as arbitrary: j)
  case Nil
  then obtain j' where j: "j = Suc j'" and l: "length (get_all_transports E) < j" by (cases j) auto
  have "run_schedule E (replicate j 0) [LazyAdding []] c =
        run_schedule E (replicate j 0) [LazyOpening (get_all_transports E)] c"
    by (simp add: j lazy_resume_def resume_adding_def)
  with run_alone_opening[OF l, of E c] show ?case by (simp add: bnd_ret)
next
  case (Cons a as)
  then obtain j' where j: "j = Suc j'" and l: "length as + length (get_all_transports E) < j'"
    by (cases j) auto
  show ?case
  proof (cases "add_api_raises E (meta_name a)")
    case None
    have L: "run_schedule E (replicate j 0) [LazyAdding (a # as)] c =
             (case run_schedule E (replicate j' 0) [LazyAdding as] c of
                (pcs, c2, ev2) \<Rightarrow> (pcs, c2, ESchemaAddApi (meta_name a) # ev2))"
      by (simp add: j lazy_resume_def resume_adding_def None)
    show ?thesis
      unfolding L Cons.IH[OF l]
      by (simp add: bnd_bnd_call None split: prod.splits)
  next
    case (Some e)
    then show ?thesis
      by (simp add: j lazy_resume_def resume_adding_def ended_def bnd_bnd_call
            run_alone_ended[of "LazyRaised e" e])
  qed
qed

text \<open>
  A call of \<open>lazy_load_now\<close> that the event loop resumes again and again, with no
  other task in between, ends as \<open>lazy_load_now\<close> does: same outcome, same client,
  same calls.
\<close>

lemma run_alone:
  assumes "length (api_registry c) + length (get_all_transports E) + 2 \<le> j"
  shows "run_schedule E (replicate j 0) [LazyEntry] c =
           (case lazy_load_now E c of (r, c1, ev) \<Rightarrow> ([ended r], c1, ev))"
proof -
  from assms obtain j' where j: "j = Suc j'"
    and l': "length (api_registry c) + length (get_all_transports E) + 1 \<le> j'" by (cases j) auto
  then obtain j'' where j': "j' = Suc j''"
    and l: "length (api_registry c) + length (get_all_transports E) < j'" by (cases j') auto
  show ?thesis
  proof (cases "lazy_load_complete c")
    case True
    then show ?thesis
      by (simp add: j lazy_resume_def lazy_load_now_complete ended_def
            run_alone_ended[of LazyReturned])
  next
    case False
    show ?thesis
    proof (cases "ensure_loaded_raises E")
      case (Some e)
      with False show ?thesis
        by (simp add: j lazy_resume_def lazy_load_now_def bnd_call ended_def
              run_alone_ended[of "LazyRaised e" e])
    next
      case None
      have a: "run_schedule E (replicate j' 0) [LazyLoading] c =
            run_schedule E (replicate j' 0) [LazyAdding (api_registry c)] c"
        by (simp add: j' lazy_resume_def)
      have L: "run_schedule E (replicate j 0) [LazyEntry] c =
             (case run_schedule E (replicate j' 0) [LazyLoading] c of
                (pcs, c2, ev2) \<Rightarrow> (pcs, c2, ESchemaEnsureLoaded # ev2))"
        using False None by (simp add: j lazy_resume_def)
      have b: "\<And>k. bnd (\<lambda>c1. for_each (\<lambda>a. call (ESchemaAddApi (meta_name a))
                                     (add_api_raises E (meta_name a))) (api_registry c1) c1) k c
               = bnd (for_each (\<lambda>a. call (ESchemaAddApi (meta_name a))
                                     (add_api_raises E (meta_name a))) (api_registry c)) k c"
        by (simp add: bnd_def)
      show ?thesis
        unfolding L a run_alone_adding[OF l, of c]
        using False None by (simp add: lazy_load_now_def bnd_call b split: prod.splits)
    qed
  qed
qed

end
